theory Spec2Isabelle
  imports Main "HOL-Library.Sublist"
begin

unbundle bit_operations_syntax

section \<open>The common-interface machinery of pwkit.mathlib\<close>

text \<open>
  This theory embeds the shape broadcasting, the library resolution and the tidying
  adapter of \<^verbatim>\<open>src/pwkit/mathlib.py\<close> and proves properties of them.
  Python exceptions are values of \<open>error\<close>; a function that may raise returns
  \<open>error + 'a\<close> with \<open>Inl\<close> for the exception.
\<close>

datatype error =
    ValueError string
  | NotImplementedError string
  | KeyError string
  | AttributeError string
  | TypeError string
  | IndexError string

subsection \<open>The array that broadcast\_shapes builds\<close>

text \<open>
  A shape is a tuple of non-negative integers, written as a list of natural numbers.
  \<^verbatim>\<open>broadcast_shapes\<close> does not compute with the integers themselves: it puts the padded
  shapes into \<^verbatim>\<open>np.array\<close>, and numpy chooses the element type of that array from the
  values. An integer below \<open>2^63\<close> asks for a signed 64-bit element, one below \<open>2^64\<close>
  for an unsigned one, a larger one for an array of Python objects, and a float for a
  64-bit float. The array gets the least type that holds all of these: objects if any
  element asks for them; floats if an element is a float or signed and unsigned integers
  meet (and for an array without elements); else the common integer type.

  The result of a call made on a float array consists of floats, and such a result may be
  passed to another call. So an element is an integer or a float; a float is given by its
  value, which is a natural number for every float that arises from shapes of integers.
\<close>

type_synonym shape = "nat list"

datatype pynum = PyInt nat | PyFloat nat

fun value_of :: "pynum \<Rightarrow> nat" where
  "value_of (PyInt n) = n"
| "value_of (PyFloat v) = v"

datatype array_kind = int64 | uint64 | float64 | pyobject

fun elem_kind :: "pynum \<Rightarrow> array_kind" where
  "elem_kind (PyInt n) = (if n < 2 ^ 63 then int64 else if n < 2 ^ 64 then uint64 else pyobject)"
| "elem_kind (PyFloat v) = float64"

definition array_kind_of :: "pynum list \<Rightarrow> array_kind" where
  "array_kind_of xs =
     (let ks = set (map elem_kind xs) in
      if pyobject \<in> ks then pyobject
      else if xs = [] \<or> float64 \<in> ks \<or> (int64 \<in> ks \<and> uint64 \<in> ks) then float64
      else if uint64 \<in> ks then uint64
      else int64)"

text \<open>
  The 64-bit float nearest to a natural number, as a natural number: numbers of up to 53
  bits are floats themselves; a longer one is rounded to 53 significant bits, a tie going
  to the even neighbour.
\<close>

fun bit_length :: "nat \<Rightarrow> nat" where
  "bit_length n = (if n = 0 then 0 else Suc (bit_length (n div 2)))"

declare bit_length.simps [simp del]

definition float64_round :: "nat \<Rightarrow> nat" where
  "float64_round n =
     (if bit_length n \<le> 53 then n
      else
        let e = bit_length n - 53;
            q = n div 2 ^ e;
            r = n mod 2 ^ e;
            h = 2 ^ (e - 1)
        in if h < r \<or> (r = h \<and> odd q) then (q + 1) * 2 ^ e else q * 2 ^ e)"

text \<open>
  An element as the array of a given type holds it: a float array holds the nearest
  float; an integer array holds the integer; an array of objects holds the object passed.
\<close>

definition store :: "array_kind \<Rightarrow> pynum \<Rightarrow> pynum" where
  "store k x = (if k = float64 then PyFloat (float64_round (value_of x)) else x)"

definition np_array :: "pynum list list \<Rightarrow> pynum list list" where
  "np_array rows = map (map (store (array_kind_of (concat rows)))) rows"

subsection \<open>broadcast\_shapes\<close>

definition shape_mismatch :: error where
  "shape_mismatch = ValueError ''shape mismatch: objects cannot be broadcast to a single shape''"

definition maxlen :: "'a list list \<Rightarrow> nat" where
  "maxlen shapes = Max (set (map length shapes))"

text \<open>One row of \<^verbatim>\<open>padded\<close> before the conversion: \<^verbatim>\<open>(1,) * (maxlen - len (s)) + s\<close>.\<close>

definition pad_shape_np :: "nat \<Rightarrow> pynum list \<Rightarrow> pynum list" where
  "pad_shape_np m s = replicate (m - length s) (PyInt 1) @ s"

definition padded_np :: "pynum list list \<Rightarrow> pynum list list" where
  "padded_np shapes = np_array (map (pad_shape_np (maxlen shapes)) shapes)"

text \<open>
  The comparisons \<^verbatim>\<open>x != 1\<close> and \<^verbatim>\<open>result[i] == 1\<close> go by the value. So does
  \<^verbatim>\<open>result[i] != x\<close> between two integers and between two floats. An integer and a float
  meet there only in an array of objects, and how numpy then compares them depends on its
  version; this is the parameter \<open>ne_mixed\<close>, applied to the value of the integer and the
  value of the float, neither of which is 1.
\<close>

fun differs :: "(nat \<Rightarrow> nat \<Rightarrow> bool) \<Rightarrow> pynum \<Rightarrow> pynum \<Rightarrow> bool" where
  "differs ne_mixed (PyInt a) (PyInt b) = (a \<noteq> b)"
| "differs ne_mixed (PyFloat a) (PyFloat b) = (a \<noteq> b)"
| "differs ne_mixed (PyInt a) (PyFloat b) = ne_mixed a b"
| "differs ne_mixed (PyFloat a) (PyInt b) = ne_mixed b a"

text \<open>
  The loops work on the two-dimensional array \<^verbatim>\<open>padded\<close>. The variable
  \<^verbatim>\<open>result = padded[0]\<close> is a view of its first row, so \<^verbatim>\<open>result[i]\<close> is
  \<open>padded ! 0 ! i\<close> and the assignment \<^verbatim>\<open>result[i] = x\<close> updates the array
  itself. \<open>broadcast_step_np\<close> is the body of the inner loop for one pair \<open>(i, j)\<close>.
\<close>

definition broadcast_step_np ::
  "(nat \<Rightarrow> nat \<Rightarrow> bool) \<Rightarrow> pynum list list \<Rightarrow> nat \<Rightarrow> nat \<Rightarrow> error + pynum list list" where
  "broadcast_step_np ne_mixed padded i j =
     (let x = padded ! j ! i in
      if value_of x \<noteq> 1 then
        if value_of (padded ! 0 ! i) = 1 then Inr (padded[0 := (padded ! 0)[i := x]])
        else if differs ne_mixed (padded ! 0 ! i) x then Inl shape_mismatch
        else Inr padded
      else Inr padded)"

text \<open>\<^verbatim>\<open>for j in range (1, len (shapes))\<close>, given the list of the values of \<open>j\<close>.\<close>

fun broadcast_inner_np ::
  "(nat \<Rightarrow> nat \<Rightarrow> bool) \<Rightarrow> pynum list list \<Rightarrow> nat \<Rightarrow> nat list \<Rightarrow> error + pynum list list" where
  "broadcast_inner_np ne_mixed padded i [] = Inr padded"
| "broadcast_inner_np ne_mixed padded i (j # js) =
     (case broadcast_step_np ne_mixed padded i j of
        Inl e \<Rightarrow> Inl e
      | Inr padded' \<Rightarrow> broadcast_inner_np ne_mixed padded' i js)"

text \<open>\<^verbatim>\<open>for i in range (maxlen)\<close>, given the list of the values of \<open>i\<close>.\<close>

fun broadcast_outer_np ::
  "(nat \<Rightarrow> nat \<Rightarrow> bool) \<Rightarrow> pynum list list \<Rightarrow> nat \<Rightarrow> nat list \<Rightarrow> error + pynum list list" where
  "broadcast_outer_np ne_mixed padded n [] = Inr padded"
| "broadcast_outer_np ne_mixed padded n (i # is) =
     (case broadcast_inner_np ne_mixed padded i [1..<n] of
        Inl e \<Rightarrow> Inl e
      | Inr padded' \<Rightarrow> broadcast_outer_np ne_mixed padded' n is)"

text \<open>
  The function on tuples whose elements may be integers or floats. \<^verbatim>\<open>np.max\<close> of an
  empty list raises, so a call without any shape fails before the loops are reached.
\<close>

definition broadcast_shapes_np ::
  "(nat \<Rightarrow> nat \<Rightarrow> bool) \<Rightarrow> pynum list list \<Rightarrow> error + pynum list" where
  "broadcast_shapes_np ne_mixed shapes =
     (if shapes = [] then
        Inl (ValueError ''zero-size array to reduction operation maximum which has no identity'')
      else
        case broadcast_outer_np ne_mixed (padded_np shapes) (length shapes) [0..<maxlen shapes] of
          Inl e \<Rightarrow> Inl e
        | Inr padded' \<Rightarrow> Inr (padded' ! 0))"

text \<open>
  The function on shapes of integers, with the values of the numbers it returns. On such
  shapes no integer meets a float, so the parameter is without effect; the comparison by
  value stands in for it.
\<close>

definition exact_ne :: "nat \<Rightarrow> nat \<Rightarrow> bool" where
  "exact_ne a b = (a \<noteq> b)"

definition broadcast_shapes :: "shape list \<Rightarrow> error + shape" where
  "broadcast_shapes shapes =
     (case broadcast_shapes_np exact_ne (map (map PyInt) shapes) of
        Inl e \<Rightarrow> Inl e
      | Inr r \<Rightarrow> Inr (map value_of r))"

text \<open>The values that the array \<^verbatim>\<open>padded\<close> holds for shapes of integers.\<close>

definition padded_shapes :: "shape list \<Rightarrow> nat list list" where
  "padded_shapes shapes = map (map value_of) (padded_np (map (map PyInt) shapes))"

subsection \<open>The registry of common-interface functions\<close>

datatype signature = std_unary | std_binary | other_1

text \<open>The members of \<^verbatim>\<open>Flags\<close> are bit masks, combined with \<open>OR\<close> and tested with \<open>AND\<close>.\<close>

definition flag_none :: nat where
  "flag_none = 0"

definition has_numpy_impl :: nat where
  "has_numpy_impl = push_bit 0 1"

definition bool_result :: nat where
  "bool_result = push_bit 1 1"

definition ints_only :: nat where
  "ints_only = push_bit 2 1"

record FunctionSpecification =
  fs_name :: string
  fs_signature :: signature
  fs_flags :: nat

definition FS :: "string \<Rightarrow> signature \<Rightarrow> nat \<Rightarrow> FunctionSpecification" where
  "FS n s f = \<lparr>fs_name = n, fs_signature = s, fs_flags = f\<rparr>"

definition interface_list :: "FunctionSpecification list" where
  "interface_list =
     [FS ''absolute'' std_unary (has_numpy_impl),
      FS ''add'' std_binary (has_numpy_impl),
      FS ''arccos'' std_unary (has_numpy_impl),
      FS ''arccosh'' std_unary (has_numpy_impl),
      FS ''arcsin'' std_unary (has_numpy_impl),
      FS ''arcsinh'' std_unary (has_numpy_impl),
      FS ''arctan'' std_unary (has_numpy_impl),
      FS ''arctan2'' std_unary (has_numpy_impl),
      FS ''arctanh'' std_unary (has_numpy_impl),
      FS ''bitwise_and'' std_binary (has_numpy_impl OR ints_only),
      FS ''bitwise_or'' std_binary (has_numpy_impl OR ints_only),
      FS ''bitwise_xor'' std_binary (has_numpy_impl OR ints_only),
      FS ''broadcast_to'' other_1 (has_numpy_impl),
      FS ''cbrt'' std_unary (has_numpy_impl),
      FS ''ceil'' std_unary (has_numpy_impl),
      FS ''cmask'' other_1 (bool_result),
      FS ''conjugate'' std_unary (has_numpy_impl),
      FS ''copysign'' std_binary (has_numpy_impl),
      FS ''cos'' std_unary (has_numpy_impl),
      FS ''cosh'' std_unary (has_numpy_impl),
      FS ''deg2rad'' std_unary (has_numpy_impl),
      FS ''divide'' std_binary (has_numpy_impl),
      FS ''get_dtype'' other_1 (flag_none),
      FS ''get_size'' other_1 (flag_none),
      FS ''equal'' std_binary (has_numpy_impl OR bool_result),
      FS ''exp'' std_unary (has_numpy_impl),
      FS ''exp2'' std_unary (has_numpy_impl),
      FS ''expm1'' std_unary (has_numpy_impl),
      FS ''fabs'' std_unary (has_numpy_impl),
      FS ''floor'' std_unary (has_numpy_impl),
      FS ''floor_divide'' std_binary (has_numpy_impl),
      FS ''fmax'' std_binary (has_numpy_impl),
      FS ''fmin'' std_binary (has_numpy_impl),
      FS ''fmod'' std_binary (has_numpy_impl),
      FS ''frexp'' other_1 (has_numpy_impl),
      FS ''greater'' std_binary (has_numpy_impl OR bool_result),
      FS ''greater_equal'' std_binary (has_numpy_impl OR bool_result),
      FS ''hypot'' std_binary (has_numpy_impl),
      FS ''invert'' std_unary (has_numpy_impl),
      FS ''isfinite'' std_unary (has_numpy_impl OR bool_result),
      FS ''isinf'' std_unary (has_numpy_impl OR bool_result),
      FS ''isnan'' std_unary (has_numpy_impl OR bool_result),
      FS ''ldexp'' std_binary (has_numpy_impl),
      FS ''left_shift'' std_binary (has_numpy_impl OR ints_only),
      FS ''less'' std_binary (has_numpy_impl OR bool_result),
      FS ''less_equal'' std_binary (has_numpy_impl OR bool_result),
      FS ''log'' std_unary (has_numpy_impl),
      FS ''log10'' std_unary (has_numpy_impl),
      FS ''log1p'' std_unary (has_numpy_impl),
      FS ''log2'' std_unary (has_numpy_impl),
      FS ''logaddexp'' std_binary (has_numpy_impl),
      FS ''logaddexp2'' std_binary (has_numpy_impl),
      FS ''logical_and'' std_binary (has_numpy_impl OR bool_result),
      FS ''logical_or'' std_binary (has_numpy_impl OR bool_result),
      FS ''logical_not'' std_unary (has_numpy_impl OR bool_result),
      FS ''logical_xor'' std_binary (has_numpy_impl OR bool_result),
      FS ''maximum'' std_binary (has_numpy_impl),
      FS ''minimum'' std_binary (has_numpy_impl),
      FS ''modf'' other_1 (has_numpy_impl),
      FS ''multiply'' std_binary (has_numpy_impl),
      FS ''negative'' std_unary (has_numpy_impl),
      FS ''nextafter'' std_binary (has_numpy_impl),
      FS ''not_equal'' std_binary (has_numpy_impl OR bool_result),
      FS ''power'' std_binary (has_numpy_impl),
      FS ''rad2deg'' std_unary (has_numpy_impl),
      FS ''reciprocal'' std_unary (has_numpy_impl),
      FS ''remainder'' std_binary (has_numpy_impl),
      FS ''repvals'' std_unary (flag_none),
      FS ''reshape'' other_1 (has_numpy_impl),
      FS ''right_shift'' std_binary (has_numpy_impl OR ints_only),
      FS ''rint'' std_unary (has_numpy_impl),
      FS ''shape'' other_1 (has_numpy_impl),
      FS ''sign'' std_unary (has_numpy_impl),
      FS ''signbit'' std_unary (has_numpy_impl OR bool_result),
      FS ''sin'' std_unary (has_numpy_impl),
      FS ''sinh'' std_unary (has_numpy_impl),
      FS ''spacing'' std_unary (has_numpy_impl),
      FS ''sqrt'' std_unary (has_numpy_impl),
      FS ''square'' std_unary (has_numpy_impl),
      FS ''subtract'' std_binary (has_numpy_impl),
      FS ''tan'' std_unary (has_numpy_impl),
      FS ''tanh'' std_unary (has_numpy_impl),
      FS ''true_divide'' std_binary (has_numpy_impl),
      FS ''trunc'' std_unary (has_numpy_impl)]"

text \<open>
  The dictionary \<^verbatim>\<open>common_interface_functions\<close>, keyed by name. The names of the list
  are pairwise different, so no entry overrides another.
\<close>

definition common_interface_functions :: "string \<Rightarrow> FunctionSpecification option" where
  "common_interface_functions = map_of (map (\<lambda>s. (fs_name s, s)) interface_list)"

subsection \<open>Computations with errors and state\<close>

text \<open>
  Element types are the kinds that \<^verbatim>\<open>try_asarray\<close> tells apart (boolean, integer,
  floating, complex) and one more for every other kind. The promotion rule
  \<^verbatim>\<open>np.result_type\<close> belongs to the numeric backend and is a parameter \<open>rt\<close> of the
  functions that use it.

  A provider allocates containers and its tidy implementations write into them, so these
  two act on a state \<open>'st\<close>, the contents of all containers. A computation takes the state
  and returns an error or a value together with the state it leaves behind.
\<close>

datatype dtype = np_bool | np_int | np_float | np_complex | np_other

type_synonym ('r, 'st) comp = "'st \<Rightarrow> (error + 'r) \<times> 'st"

definition returnS :: "'r \<Rightarrow> ('r, 'st) comp" where
  "returnS v = (\<lambda>st. (Inr v, st))"

definition raiseS :: "error \<Rightarrow> ('r, 'st) comp" where
  "raiseS e = (\<lambda>st. (Inl e, st))"

definition liftE :: "error + 'r \<Rightarrow> ('r, 'st) comp" where
  "liftE v = (\<lambda>st. (v, st))"

definition bindS :: "('r, 'st) comp \<Rightarrow> ('r \<Rightarrow> ('q, 'st) comp) \<Rightarrow> ('q, 'st) comp" where
  "bindS m f = (\<lambda>st. case m st of (Inl e, st') \<Rightarrow> (Inl e, st') | (Inr v, st') \<Rightarrow> f v st')"

subsection \<open>Providers and the tidying adapter\<close>

text \<open>
  The methods that a subclass of \<^verbatim>\<open>TidiedFunctionLibrary\<close> supplies and the adapter
  calls. \<open>'o\<close> is the type of the operands as the caller passes them, \<open>'a\<close> the provider's
  own array type. \<open>typeconvert\<close>, \<open>reshape\<close> and \<open>broadcast_to\<close> may raise; they build
  views and wrappers and write no element, so they do not touch the state. \<open>shape\<close> and
  \<open>get_dtype\<close> read an attribute of a converted operand. \<open>tidy name args\<close> is the call
  \<^verbatim>\<open>getattr (self, name) (*args)\<close> of a tidy implementation; its return value is
  dropped by the adapter. \<open>lib_name\<close> is the text \<^verbatim>\<open>str (self)\<close>. Keyword options are
  handed through to the tidy implementation unchanged and are left out.
\<close>

record ('o, 'a, 'st) provider =
  accepts :: "'o \<Rightarrow> bool"
  new_empty :: "shape \<Rightarrow> dtype \<Rightarrow> ('a, 'st) comp"
  typeconvert :: "'o \<Rightarrow> error + 'a"
  shape :: "'a \<Rightarrow> shape"
  get_dtype :: "'a \<Rightarrow> dtype"
  reshape :: "'a \<Rightarrow> shape \<Rightarrow> error + 'a"
  broadcast_to :: "'a \<Rightarrow> shape \<Rightarrow> error + 'a"
  tidy :: "string \<Rightarrow> 'a list \<Rightarrow> (unit, 'st) comp"
  lib_name :: string

text \<open>
  The adapter returns either the caller's own output object (\<^verbatim>\<open>retval = out\<close>, taken
  before \<^verbatim>\<open>out\<close> is converted) or a container that it allocated.
\<close>

datatype ('o, 'a) retval = Given 'o | Fresh 'a

definition flags_of :: "string \<Rightarrow> (nat, 'st) comp" where
  "flags_of opname =
     (case common_interface_functions opname of
        None \<Rightarrow> raiseS (KeyError opname)
      | Some fs \<Rightarrow> returnS (fs_flags fs))"

text \<open>
  \<^verbatim>\<open>_tidy_std_unary\<close> up to, and without, its last two lines: the result is the pair
  \<^verbatim>\<open>(x, out)\<close> that the tidy implementation will receive, and \<^verbatim>\<open>retval\<close>.
\<close>

definition tidy_std_unary_prepare ::
  "('o, 'a, 'st) provider \<Rightarrow> string \<Rightarrow> 'o \<Rightarrow> 'o option \<Rightarrow> ('a \<times> 'a \<times> ('o, 'a) retval, 'st) comp" where
  "tidy_std_unary_prepare self opname x0 out0 =
     bindS (liftE (typeconvert self x0)) (\<lambda>x.
     let xsh = shape self x in
     (case out0 of
        None \<Rightarrow>
          let zerod = (xsh = []) in
          bindS (if zerod then liftE (reshape self x [1]) else returnS x) (\<lambda>x.
          bindS (flags_of opname) (\<lambda>flags.
          let out_dtype = (if flags AND bool_result \<noteq> 0 then np_bool else get_dtype self x) in
          bindS (new_empty self xsh out_dtype) (\<lambda>out.
          bindS (if zerod then liftE (reshape self out []) else returnS out) (\<lambda>retval.
          returnS (x, out, Fresh retval)))))
      | Some out1 \<Rightarrow>
          bindS (liftE (typeconvert self out1)) (\<lambda>out.
          let osh = shape self out in
          bindS (liftE (broadcast_shapes [xsh, osh])) (\<lambda>bsh.
          if osh \<noteq> bsh then
            raiseS (ValueError ''output parameter must have final broadcasted shape'')
          else
            let zerod = (bsh = []) in
            if zerod then
              bindS (liftE (reshape self x [1])) (\<lambda>x.
              bindS (liftE (reshape self out [1])) (\<lambda>out.
              returnS (x, out, Given out1)))
            else if xsh \<noteq> bsh then
              bindS (liftE (broadcast_to self x bsh)) (\<lambda>x.
              returnS (x, out, Given out1))
            else returnS (x, out, Given out1)))))"

definition tidy_std_unary ::
  "('o, 'a, 'st) provider \<Rightarrow> string \<Rightarrow> 'o \<Rightarrow> 'o option \<Rightarrow> (('o, 'a) retval, 'st) comp" where
  "tidy_std_unary self opname x0 out0 =
     bindS (tidy_std_unary_prepare self opname x0 out0) (\<lambda>(x, out, retval).
     bindS (tidy self (''tidy_'' @ opname) [x, out]) (\<lambda>_.
     returnS retval))"

text \<open>\<^verbatim>\<open>_tidy_std_binary\<close>, split in the same way.\<close>

definition tidy_std_binary_prepare ::
  "(dtype \<Rightarrow> dtype \<Rightarrow> dtype) \<Rightarrow> ('o, 'a, 'st) provider \<Rightarrow> string \<Rightarrow> 'o \<Rightarrow> 'o \<Rightarrow> 'o option
     \<Rightarrow> ('a \<times> 'a \<times> 'a \<times> ('o, 'a) retval, 'st) comp" where
  "tidy_std_binary_prepare rt self opname x0 y0 out0 =
     bindS (liftE (typeconvert self x0)) (\<lambda>x.
     let xsh = shape self x in
     bindS (liftE (typeconvert self y0)) (\<lambda>y.
     let ysh = shape self y in
     (case out0 of
        None \<Rightarrow>
          bindS (liftE (broadcast_shapes [xsh, ysh])) (\<lambda>bsh.
          let zerod = (bsh = []) in
          bindS (if zerod then
                   bindS (liftE (reshape self x [1])) (\<lambda>x.
                   bindS (liftE (reshape self y [1])) (\<lambda>y.
                   returnS (x, y)))
                 else
                   bindS (if xsh \<noteq> bsh then liftE (broadcast_to self x bsh) else returnS x) (\<lambda>x.
                   bindS (if ysh \<noteq> bsh then liftE (broadcast_to self y bsh) else returnS y) (\<lambda>y.
                   returnS (x, y)))) (\<lambda>(x, y).
          bindS (flags_of opname) (\<lambda>flags.
          let out_dtype = (if flags AND bool_result \<noteq> 0 then np_bool
                           else rt (get_dtype self x) (get_dtype self y)) in
          bindS (new_empty self bsh out_dtype) (\<lambda>out.
          bindS (if zerod then liftE (reshape self out []) else returnS out) (\<lambda>retval.
          returnS (x, y, out, Fresh retval))))))
      | Some out1 \<Rightarrow>
          bindS (liftE (typeconvert self out1)) (\<lambda>out.
          let osh = shape self out in
          bindS (liftE (broadcast_shapes [xsh, ysh, osh])) (\<lambda>bsh.
          if osh \<noteq> bsh then
            raiseS (ValueError ''output parameter must have final broadcasted shape'')
          else
            let zerod = (bsh = []) in
            if zerod then
              bindS (liftE (reshape self x [1])) (\<lambda>x.
              bindS (liftE (reshape self y [1])) (\<lambda>y.
              bindS (liftE (reshape self out [1])) (\<lambda>out.
              returnS (x, y, out, Given out1))))
            else
              bindS (if xsh \<noteq> bsh then liftE (broadcast_to self x bsh) else returnS x) (\<lambda>x.
              bindS (if ysh \<noteq> bsh then liftE (broadcast_to self y bsh) else returnS y) (\<lambda>y.
              returnS (x, y, out, Given out1))))))))"

definition tidy_std_binary ::
  "(dtype \<Rightarrow> dtype \<Rightarrow> dtype) \<Rightarrow> ('o, 'a, 'st) provider \<Rightarrow> string \<Rightarrow> 'o \<Rightarrow> 'o \<Rightarrow> 'o option
     \<Rightarrow> (('o, 'a) retval, 'st) comp" where
  "tidy_std_binary rt self opname x0 y0 out0 =
     bindS (tidy_std_binary_prepare rt self opname x0 y0 out0) (\<lambda>(x, y, out, retval).
     bindS (tidy self (''tidy_'' @ opname) [x, y, out]) (\<lambda>_.
     returnS retval))"

subsection \<open>get\_library\_for\<close>

text \<open>
  What the resolution reads from the Python objects: whether an operand is an instance of
  \<^verbatim>\<open>numpy_types\<close>, the value of its attribute \<^verbatim>\<open>_pk_mathlib_library_\<close> (\<open>None\<close> when
  the attribute is missing or is \<^verbatim>\<open>None\<close>), the \<^verbatim>\<open>accepts\<close> method of a library, the
  instance \<^verbatim>\<open>numpy_library\<close>, and the texts \<^verbatim>\<open>str (o)\<close> and
  \<^verbatim>\<open>o.__class__.__name__\<close> of an operand.
\<close>

record ('o, 'l) resolver =
  isinstance_numpy_types :: "'o \<Rightarrow> bool"
  pk_mathlib_library :: "'o \<Rightarrow> 'l option"
  lib_accepts :: "'l \<Rightarrow> 'o \<Rightarrow> bool"
  numpy_library :: "'l"
  str_of :: "'o \<Rightarrow> string"
  class_name :: "'o \<Rightarrow> string"

text \<open>Python's \<^verbatim>\<open>sep.join (xs)\<close>.\<close>

fun join :: "string \<Rightarrow> string list \<Rightarrow> string" where
  "join sep [] = []"
| "join sep [x] = x"
| "join sep (x # y # ys) = x @ sep @ join sep (y # ys)"

text \<open>The inner loop \<^verbatim>\<open>for obj2 in objects\<close>: \<open>True\<close> when it ends without \<^verbatim>\<open>break\<close>.\<close>

fun accepts_all :: "('o, 'l) resolver \<Rightarrow> 'l \<Rightarrow> 'o list \<Rightarrow> bool" where
  "accepts_all E library [] = True"
| "accepts_all E library (obj2 # rest) =
     (if \<not> lib_accepts E library obj2 then False else accepts_all E library rest)"

text \<open>
  The outer loop \<^verbatim>\<open>for obj in objects\<close>. Beside the library found, if any, it returns
  the operands whose attribute \<^verbatim>\<open>_pk_mathlib_library_\<close> it has read, in the order of the
  reads.
\<close>

fun find_library :: "('o, 'l) resolver \<Rightarrow> 'o list \<Rightarrow> 'o list \<Rightarrow> 'l option \<times> 'o list" where
  "find_library E objects [] = (None, [])"
| "find_library E objects (obj # rest) =
     (case pk_mathlib_library E obj of
        None \<Rightarrow> (case find_library E objects rest of (r, seen) \<Rightarrow> (r, obj # seen))
      | Some library \<Rightarrow>
          if accepts_all E library objects then (Some library, [obj])
          else (case find_library E objects rest of (r, seen) \<Rightarrow> (r, obj # seen)))"

definition identification_error :: "('o, 'l) resolver \<Rightarrow> 'o list \<Rightarrow> error" where
  "identification_error E objects =
     ValueError (''cannot identify math function library for input(s): '' @
       join '', '' (map (\<lambda>obj. str_of E obj @ '' ('' @ class_name E obj @ '')'') objects))"

definition get_library_for :: "('o, 'l) resolver \<Rightarrow> 'o list \<Rightarrow> (error + 'l) \<times> 'o list" where
  "get_library_for E objects =
     (if list_all (isinstance_numpy_types E) objects then (Inr (numpy_library E), [])
      else
        case find_library E objects objects of
          (Some library, seen) \<Rightarrow> (Inr library, seen)
        | (None, seen) \<Rightarrow> (Inl (identification_error E objects), seen))"

subsection \<open>The in-place operators of MathlibDelegatingObject\<close>

text \<open>
  The two library classes with instances: \<^verbatim>\<open>NumpyFunctionLibrary\<close>, whose methods are
  the backend's functions, and the subclasses of \<^verbatim>\<open>TidiedFunctionLibrary\<close>, given by
  their methods.
\<close>

datatype ('o, 'a, 'st) library =
    NumpyFunctionLibrary
  | TidiedFunctionLibrary "('o, 'a, 'st) provider"

text \<open>
  The call \<^verbatim>\<open>getattr (library, name) (x, y, out)\<close>. The classes get one method for
  each key of the registry (\<^verbatim>\<open>_fill_base_library_type\<close>, \<^verbatim>\<open>_fill_numpy_library_type\<close>,
  \<^verbatim>\<open>_fill_tidied_library_type\<close>); for any other of the names that the operators use the
  attribute lookup raises. On a tidied library a \<^verbatim>\<open>std_binary\<close> name is bound to
  \<^verbatim>\<open>_tidy_std_binary\<close>; a \<^verbatim>\<open>std_unary\<close> name is bound to \<^verbatim>\<open>_tidy_std_unary\<close>, which
  takes one positional argument less; the other names keep the default that raises
  \<^verbatim>\<open>NotImplementedError\<close>. The methods of the numpy library are the parameter \<open>np\<close>.
\<close>

definition library_call3 ::
  "(string \<Rightarrow> 'o list \<Rightarrow> (('o, 'a) retval, 'st) comp) \<Rightarrow> (dtype \<Rightarrow> dtype \<Rightarrow> dtype)
     \<Rightarrow> ('o, 'a, 'st) library \<Rightarrow> string \<Rightarrow> 'o \<Rightarrow> 'o \<Rightarrow> 'o \<Rightarrow> (('o, 'a) retval, 'st) comp" where
  "library_call3 np rt library name x y out =
     (case common_interface_functions name of
        None \<Rightarrow>
          raiseS (AttributeError (''library object has no attribute '' @ name))
      | Some fs \<Rightarrow>
          (case library of
             NumpyFunctionLibrary \<Rightarrow> np name [x, y, out]
           | TidiedFunctionLibrary self \<Rightarrow>
               (case fs_signature fs of
                  std_binary \<Rightarrow> tidy_std_binary rt self name x y (Some out)
                | std_unary \<Rightarrow> raiseS (TypeError ''too many positional arguments'')
                | other_1 \<Rightarrow>
                    raiseS (NotImplementedError (''math function '' @ name @
                      '' not implemented in '' @ lib_name self)))))"

text \<open>\<^verbatim>\<open>__dispatch_binary_inplace\<close>.\<close>

definition dispatch_binary_inplace ::
  "('o, ('o, 'a, 'st) library) resolver \<Rightarrow> (string \<Rightarrow> 'o list \<Rightarrow> (('o, 'a) retval, 'st) comp)
     \<Rightarrow> (dtype \<Rightarrow> dtype \<Rightarrow> dtype) \<Rightarrow> 'o \<Rightarrow> string \<Rightarrow> 'o \<Rightarrow> (('o, 'a) retval, 'st) comp" where
  "dispatch_binary_inplace E np rt self name other =
     bindS (liftE (fst (get_library_for E [self, other]))) (\<lambda>library.
     library_call3 np rt library name self other self)"

text \<open>
  The in-place operator methods of the class, each with the name it binds by
  \<^verbatim>\<open>partialmethod\<close>. \<^verbatim>\<open>__ipow__\<close> is written out in the source; called as an
  operator its \<^verbatim>\<open>modulo\<close> is \<^verbatim>\<open>None\<close> and it does the same with the name
  \<^verbatim>\<open>power\<close>.
\<close>

datatype inplace_operator =
    iadd | isub | imul | idiv | itruediv | ifloordiv | imod | ipow
  | ilshift | irshift | iand | ixor | ior

fun inplace_name :: "inplace_operator \<Rightarrow> string" where
  "inplace_name iadd = ''add''"
| "inplace_name isub = ''subtract''"
| "inplace_name imul = ''multiply''"
| "inplace_name idiv = ''divide''"
| "inplace_name itruediv = ''true_divide''"
| "inplace_name ifloordiv = ''floor_divide''"
| "inplace_name imod = ''mod''"
| "inplace_name ipow = ''power''"
| "inplace_name ilshift = ''left_shift''"
| "inplace_name irshift = ''right_shift''"
| "inplace_name iand = ''bitwise_and''"
| "inplace_name ixor = ''bitwise_xor''"
| "inplace_name ior = ''bitwise_or''"

definition inplace ::
  "('o, ('o, 'a, 'st) library) resolver \<Rightarrow> (string \<Rightarrow> 'o list \<Rightarrow> (('o, 'a) retval, 'st) comp)
     \<Rightarrow> (dtype \<Rightarrow> dtype \<Rightarrow> dtype) \<Rightarrow> inplace_operator \<Rightarrow> 'o \<Rightarrow> 'o \<Rightarrow> (('o, 'a) retval, 'st) comp" where
  "inplace E np rt opr self other = dispatch_binary_inplace E np rt self (inplace_name opr) other"

subsection \<open>The test classes\<close>

text \<open>
  \<^verbatim>\<open>TestArrayWrapper\<close> wraps a numpy array; \<^verbatim>\<open>TestWrappedLibrary\<close> is the provider for
  it. Of a numpy array the model keeps the shape, the element type, the buffer that holds
  its elements (views share it) and the text of its \<^verbatim>\<open>repr\<close>. The values of the elements
  are the backend's business: the state records which buffer an implementation has
  overwritten, by which operation and from which buffers, and the lines it has printed.
\<close>

record ndarray =
  nd_shape :: shape
  nd_dtype :: dtype
  nd_buf :: nat
  nd_repr :: string

text \<open>
  Operands: a plain numeric value (an instance of \<^verbatim>\<open>numpy_types\<close>), a
  \<^verbatim>\<open>TestArrayWrapper\<close>, or an object of some other class, given by the name of the class
  and its \<^verbatim>\<open>str\<close>.
\<close>

datatype pyobj = Array ndarray | Wrapped ndarray | Opaque string string

record world =
  next_buf :: nat
  printed :: "(string \<times> (shape \<times> dtype) list) list"
  writes :: "(nat \<times> string \<times> nat list) list"

text \<open>
  \<^verbatim>\<open>try_asarray\<close> with the default \<^verbatim>\<open>fail_mode\<close>: \<^verbatim>\<open>np.asarray\<close> leaves an array as it
  is and makes an array of objects of anything that is not numeric, which is refused.
\<close>

definition try_asarray :: "pyobj \<Rightarrow> error + ndarray" where
  "try_asarray thing =
     (case thing of
        Array a \<Rightarrow>
          if nd_dtype a \<in> {np_bool, np_int, np_float, np_complex} then Inr a
          else Inl (ValueError (''cannot treat '' @ nd_repr a @ '' as a data array''))
      | Wrapped a \<Rightarrow>
          Inl (ValueError (''cannot treat '' @ nd_repr a @ '' [wrapped] as a data array''))
      | Opaque c s \<Rightarrow> Inl (ValueError (''cannot treat '' @ s @ '' as a data array'')))"

text \<open>
  The two tidy implementations print a line that names class, shape and element type of
  each operand, and then assign to \<^verbatim>\<open>out.data[:]\<close>. The slice cannot index a
  zero-dimensional array, and the assigned value must broadcast to the shape of
  \<^verbatim>\<open>out.data\<close>.
\<close>

definition tidy_write :: "string \<Rightarrow> ndarray list \<Rightarrow> ndarray \<Rightarrow> (unit, world) comp" where
  "tidy_write tag ins out =
     (\<lambda>w.
        let w1 = w\<lparr>printed := printed w @ [(tag, map (\<lambda>a. (nd_shape a, nd_dtype a)) (ins @ [out]))]\<rparr>
        in if nd_shape out = [] then
             (Inl (IndexError ''too many indices for array''), w1)
           else if broadcast_shapes (map nd_shape ins @ [nd_shape out]) \<noteq> Inr (nd_shape out) then
             (Inl (ValueError ''could not broadcast input array''), w1)
           else (Inr (), w1\<lparr>writes := writes w1 @ [(nd_buf out, tag, map nd_buf ins)]\<rparr>))"

definition is_tidy_name :: "string \<Rightarrow> bool" where
  "is_tidy_name name =
     (take 5 name = ''tidy_'' \<and>
      (case common_interface_functions (drop 5 name) of
         None \<Rightarrow> False
       | Some fs \<Rightarrow> fs_signature fs \<noteq> other_1))"

definition TestWrappedLibrary :: "(pyobj, ndarray, world) provider" where
  \<open>TestWrappedLibrary =
     \<lparr>accepts = (\<lambda>other. case other of Opaque c s \<Rightarrow> False | _ \<Rightarrow> True),
      new_empty = (\<lambda>sh dt w.
         (Inr \<lparr>nd_shape = sh, nd_dtype = dt, nd_buf = next_buf w, nd_repr = []\<rparr>,
          w\<lparr>next_buf := Suc (next_buf w)\<rparr>)),
      typeconvert = (\<lambda>thing. case thing of Wrapped a \<Rightarrow> Inr a | _ \<Rightarrow> try_asarray thing),
      shape = nd_shape,
      get_dtype = nd_dtype,
      reshape = (\<lambda>x sh. Inl (NotImplementedError
         ''math function "reshape" not implemented for objects of type "TestArrayWrapper" in TestWrappedLibrary'')),
      broadcast_to = (\<lambda>x sh.
         if broadcast_shapes [nd_shape x, sh] = Inr sh then Inr (x\<lparr>nd_shape := sh\<rparr>)
         else Inl (ValueError ''operands could not be broadcast together'')),
      tidy = (\<lambda>name args.
         if name = ''tidy_negative'' then
           (case args of
              [x, out] \<Rightarrow> tidy_write ''TN'' [x] out
            | _ \<Rightarrow> raiseS (TypeError ''tidy_negative() takes exactly 3 arguments''))
         else if name = ''tidy_add'' then
           (case args of
              [x, y, out] \<Rightarrow> tidy_write ''TA'' [x, y] out
            | _ \<Rightarrow> raiseS (TypeError ''tidy_add() takes exactly 4 arguments''))
         else if is_tidy_name name then
           raiseS (NotImplementedError (''math function "'' @ name @
             ''" not implemented for objects of type "TestArrayWrapper" in TestWrappedLibrary''))
         else raiseS (AttributeError (''library object has no attribute '' @ name))),
      lib_name = ''TestWrappedLibrary''\<rparr>\<close>

text \<open>
  The objects as the resolution sees them: plain numeric values are instances of
  \<^verbatim>\<open>numpy_types\<close> and have no \<^verbatim>\<open>_pk_mathlib_library_\<close>; a \<^verbatim>\<open>TestArrayWrapper\<close> has
  the instance of \<^verbatim>\<open>TestWrappedLibrary\<close> there and prints as the \<^verbatim>\<open>repr\<close> of its data
  followed by \<^verbatim>\<open>[wrapped]\<close>.
\<close>

definition test_resolver :: "(pyobj, (pyobj, ndarray, world) library) resolver" where
  "test_resolver =
     \<lparr>isinstance_numpy_types = (\<lambda>obj. case obj of Array a \<Rightarrow> True | _ \<Rightarrow> False),
      pk_mathlib_library = (\<lambda>obj. case obj of
         Wrapped a \<Rightarrow> Some (TidiedFunctionLibrary TestWrappedLibrary) | _ \<Rightarrow> None),
      lib_accepts = (\<lambda>library obj. case library of
         NumpyFunctionLibrary \<Rightarrow> (case obj of Array a \<Rightarrow> True | _ \<Rightarrow> False)
       | TidiedFunctionLibrary self \<Rightarrow> accepts self obj),
      numpy_library = NumpyFunctionLibrary,
      str_of = (\<lambda>obj. case obj of
         Array a \<Rightarrow> nd_repr a | Wrapped a \<Rightarrow> nd_repr a @ '' [wrapped]'' | Opaque c s \<Rightarrow> s),
      class_name = (\<lambda>obj. case obj of
         Array a \<Rightarrow> ''ndarray'' | Wrapped a \<Rightarrow> ''TestArrayWrapper'' | Opaque c s \<Rightarrow> c)\<rparr>"

text \<open>
  A subclass for the examples below, not a class of the module: \<^verbatim>\<open>TestWrappedLibrary\<close>
  with the method \<^verbatim>\<open>reshape\<close> added, as \<^verbatim>\<open>np.reshape\<close> of the wrapped data, which gives
  a view of the same buffer when the number of elements stays the same.
\<close>

definition ReshapingTestLibrary :: "(pyobj, ndarray, world) provider" where
  "ReshapingTestLibrary =
     TestWrappedLibrary\<lparr>reshape := (\<lambda>x sh.
        if prod_list sh = prod_list (nd_shape x) then Inr (x\<lparr>nd_shape := sh\<rparr>)
        else Inl (ValueError ''cannot reshape array''))\<rparr>"

subsection \<open>Concrete inputs for the examples\<close>

text \<open>
  An array of floats with a given shape and buffer, a state in which the buffers below 10
  are taken, a promotion rule on the kinds of element types, and a numpy library none of
  whose functions is called in the examples.
\<close>

definition float_array :: "shape \<Rightarrow> nat \<Rightarrow> ndarray" where
  "float_array sh b = \<lparr>nd_shape = sh, nd_dtype = np_float, nd_buf = b, nd_repr = ''array''\<rparr>"

definition world0 :: world where
  "world0 = \<lparr>next_buf = 10, printed = [], writes = []\<rparr>"

definition kind_rank :: "dtype \<Rightarrow> nat" where
  "kind_rank d = (case d of np_bool \<Rightarrow> 0 | np_int \<Rightarrow> 1 | np_float \<Rightarrow> 2 | np_complex \<Rightarrow> 3 | np_other \<Rightarrow> 4)"

definition kind_promote :: "dtype \<Rightarrow> dtype \<Rightarrow> dtype" where
  "kind_promote a b = (if kind_rank a \<le> kind_rank b then b else a)"

definition numpy_unused :: "string \<Rightarrow> pyobj list \<Rightarrow> ((pyobj, ndarray) retval, world) comp" where
  "numpy_unused name args = raiseS (NotImplementedError name)"

subsection \<open>Auxiliary notions for the proofs about broadcasting\<close>

text \<open>
  The loops once more, on arrays of values; they agree with the loops above on an array
  all of whose elements are integers, or all floats. Then what one pass of the inner loop
  does to \<open>result[i]\<close> when it meets the size \<open>x\<close>, the same folded along a column, and
  the column of a padded array.
\<close>

definition pad_shape :: "nat \<Rightarrow> shape \<Rightarrow> shape" where
  "pad_shape m s = replicate (m - length s) 1 @ s"

definition broadcast_step :: "nat list list \<Rightarrow> nat \<Rightarrow> nat \<Rightarrow> error + nat list list" where
  "broadcast_step padded i j =
     (let x = padded ! j ! i in
      if x \<noteq> 1 then
        if padded ! 0 ! i = 1 then Inr (padded[0 := (padded ! 0)[i := x]])
        else if padded ! 0 ! i \<noteq> x then Inl shape_mismatch
        else Inr padded
      else Inr padded)"

fun broadcast_inner :: "nat list list \<Rightarrow> nat \<Rightarrow> nat list \<Rightarrow> error + nat list list" where
  "broadcast_inner padded i [] = Inr padded"
| "broadcast_inner padded i (j # js) =
     (case broadcast_step padded i j of
        Inl e \<Rightarrow> Inl e
      | Inr padded' \<Rightarrow> broadcast_inner padded' i js)"

fun broadcast_outer :: "nat list list \<Rightarrow> nat \<Rightarrow> nat list \<Rightarrow> error + nat list list" where
  "broadcast_outer padded n [] = Inr padded"
| "broadcast_outer padded n (i # is) =
     (case broadcast_inner padded i [1..<n] of
        Inl e \<Rightarrow> Inl e
      | Inr padded' \<Rightarrow> broadcast_outer padded' n is)"

definition rect :: "nat \<Rightarrow> 'a list list \<Rightarrow> bool" where
  "rect m V = (0 < length V \<and> (\<forall>row\<in>set V. length row = m))"

definition int_kind :: "shape list \<Rightarrow> array_kind" where
  "int_kind shapes =
     array_kind_of (concat (map (pad_shape_np (maxlen shapes)) (map (map PyInt) shapes)))"

definition value_conv :: "array_kind \<Rightarrow> nat \<Rightarrow> nat" where
  "value_conv k n = (if k = float64 then float64_round n else n)"

definition kind_tag :: "array_kind \<Rightarrow> nat \<Rightarrow> pynum" where
  "kind_tag k = (if k = float64 then PyFloat else PyInt)"

definition small :: "shape \<Rightarrow> bool" where
  "small s = (\<forall>d\<in>set s. d < 2 ^ 63)"

definition dim_merge :: "nat \<Rightarrow> nat \<Rightarrow> error + nat" where
  "dim_merge r x =
     (if x \<noteq> 1 then
        if r = 1 then Inr x else if r \<noteq> x then Inl shape_mismatch else Inr r
      else Inr r)"

fun col_fold :: "nat \<Rightarrow> nat list \<Rightarrow> error + nat" where
  "col_fold r [] = Inr r"
| "col_fold r (x # xs) =
     (case dim_merge r x of Inl e \<Rightarrow> Inl e | Inr r' \<Rightarrow> col_fold r' xs)"

definition colres :: "nat list list \<Rightarrow> nat \<Rightarrow> error + nat" where
  "colres padded i = col_fold (padded ! 0 ! i) (map (\<lambda>j. padded ! j ! i) [1..<length padded])"

definition conflict :: "nat list \<Rightarrow> bool" where
  "conflict xs = (\<exists>a\<in>set xs. \<exists>b\<in>set xs. a \<noteq> 1 \<and> b \<noteq> 1 \<and> a \<noteq> b)"

section \<open>Properties of broadcast\_shapes\<close>

subsection \<open>The loops, column by column\<close>

lemma broadcast_step_merge:
  assumes "0 < length padded" "i < length (padded ! 0)"
  shows "broadcast_step padded i j =
           (case dim_merge (padded ! 0 ! i) (padded ! j ! i) of
              Inl e \<Rightarrow> Inl e
            | Inr v \<Rightarrow> Inr (padded[0 := (padded ! 0)[i := v]]))"
proof -
  have same: "padded ! 0 ! i = padded ! j ! i \<Longrightarrow>
                padded[0 := (padded ! 0)[i := padded ! j ! i]] = padded"
    by (metis list_update_id)
  show ?thesis
  proof (cases "padded ! j ! i = 1")
    case True
    then show ?thesis using same by (simp add: broadcast_step_def dim_merge_def)
  next
    case False
    then show ?thesis using same by (auto simp: broadcast_step_def dim_merge_def Let_def)
  qed
qed

lemma broadcast_inner_col_fold:
  assumes "0 < length padded" "i < length (padded ! 0)" "\<forall>j\<in>set js. 0 < j"
  shows "broadcast_inner padded i js =
           (case col_fold (padded ! 0 ! i) (map (\<lambda>j. padded ! j ! i) js) of
              Inl e \<Rightarrow> Inl e
            | Inr v \<Rightarrow> Inr (padded[0 := (padded ! 0)[i := v]]))"
  using assms
proof (induction js arbitrary: padded)
  case Nil
  then show ?case by simp
next
  case (Cons j js)
  show ?case
  proof (cases "dim_merge (padded ! 0 ! i) (padded ! j ! i)")
    case (Inl e)
    then show ?thesis using Cons.prems by (simp add: broadcast_step_merge)
  next
    case (Inr v)
    let ?P = "padded[0 := (padded ! 0)[i := v]]"
    have step: "broadcast_step padded i j = Inr ?P"
      using Inr Cons.prems by (simp add: broadcast_step_merge)
    have len: "0 < length ?P" "i < length (?P ! 0)"
      using Cons.prems by simp_all
    have js: "\<forall>j\<in>set js. 0 < j" using Cons.prems by simp
    have rows: "map (\<lambda>j. ?P ! j ! i) js = map (\<lambda>j. padded ! j ! i) js"
      using js by (intro map_cong) auto
    have r0: "?P ! 0 ! i = v" using Cons.prems by simp
    have upd: "\<And>w. ?P[0 := (?P ! 0)[i := w]] = padded[0 := (padded ! 0)[i := w]]"
      using Cons.prems by simp
    have "broadcast_inner padded i (j # js) = broadcast_inner ?P i js"
      using step by simp
    also have "\<dots> = (case col_fold (?P ! 0 ! i) (map (\<lambda>j. ?P ! j ! i) js) of
              Inl e \<Rightarrow> Inl e
            | Inr w \<Rightarrow> Inr (?P[0 := (?P ! 0)[i := w]]))"
      by (rule Cons.IH[OF len js])
    also have "\<dots> = (case col_fold v (map (\<lambda>j. padded ! j ! i) js) of
              Inl e \<Rightarrow> Inl e
            | Inr w \<Rightarrow> Inr (padded[0 := (padded ! 0)[i := w]]))"
      unfolding rows r0 upd ..
    finally show ?thesis using Inr by simp
  qed
qed

lemma dim_merge_error: "dim_merge r x = Inl e \<Longrightarrow> e = shape_mismatch"
  by (auto simp: dim_merge_def split: if_splits)

lemma col_fold_error: "col_fold r xs = Inl e \<Longrightarrow> e = shape_mismatch"
  by (induction xs arbitrary: r) (auto split: sum.splits dest: dim_merge_error)

lemma colres_update_other:
  assumes "0 < length padded" "k \<noteq> i"
  shows "colres (padded[0 := (padded ! 0)[i := v]]) k = colres padded k"
proof -
  have a: "map (\<lambda>j. padded[0 := (padded ! 0)[i := v]] ! j ! k) [1..<length padded]
        = map (\<lambda>j. padded ! j ! k) [1..<length padded]"
    by (intro map_cong) auto
  have b: "padded[0 := (padded ! 0)[i := v]] ! 0 ! k = padded ! 0 ! k"
    using assms by simp
  have c: "length (padded[0 := (padded ! 0)[i := v]]) = length padded"
    by simp
  show ?thesis unfolding colres_def c a b ..
qed

lemma broadcast_outer_colres:
  assumes "0 < length padded" "distinct is" "\<forall>i\<in>set is. i < length (padded ! 0)"
  shows "broadcast_outer padded (length padded) is =
           (if \<exists>i\<in>set is. isl (colres padded i) then Inl shape_mismatch
            else Inr (padded[0 := map (\<lambda>k. if k \<in> set is then projr (colres padded k)
                                             else padded ! 0 ! k) [0..<length (padded ! 0)]]))"
  using assms
proof (induction "is" arbitrary: padded)
  case Nil
  then show ?case by (simp add: map_nth)
next
  case (Cons i "is")
  have i: "i < length (padded ! 0)" using Cons.prems by simp
  have inner: "broadcast_inner padded i [1..<length padded] =
                 (case colres padded i of Inl e \<Rightarrow> Inl e
                  | Inr v \<Rightarrow> Inr (padded[0 := (padded ! 0)[i := v]]))"
    unfolding colres_def
    by (rule broadcast_inner_col_fold) (use Cons.prems i in auto)
  show ?case
  proof (cases "colres padded i")
    case (Inl e)
    then have "e = shape_mismatch" by (auto simp: colres_def dest: col_fold_error)
    then show ?thesis using Inl inner by simp
  next
    case (Inr v)
    let ?P = "padded[0 := (padded ! 0)[i := v]]"
    have P0: "?P ! 0 = (padded ! 0)[i := v]" using Cons.prems by simp
    have prems: "0 < length ?P" "distinct is" "\<forall>i\<in>set is. i < length (?P ! 0)"
      using Cons.prems by (simp_all add: P0)
    have same: "\<And>k. k \<in> set is \<Longrightarrow> colres ?P k = colres padded k"
      using Cons.prems by (intro colres_update_other) auto
    have ex: "(\<exists>k\<in>set is. isl (colres ?P k)) = (\<exists>k\<in>set is. isl (colres padded k))"
      using same by auto
    have row: "map (\<lambda>k. if k \<in> set is then projr (colres ?P k) else ?P ! 0 ! k) [0..<length (?P ! 0)]
             = map (\<lambda>k. if k \<in> set (i # is) then projr (colres padded k) else padded ! 0 ! k)
                 [0..<length (padded ! 0)]"
    proof -
      have "\<And>k. k < length (padded ! 0) \<Longrightarrow>
              (if k \<in> set is then projr (colres ?P k) else ?P ! 0 ! k)
            = (if k \<in> set (i # is) then projr (colres padded k) else padded ! 0 ! k)"
        using Cons.prems Inr same by (auto simp: P0)
      then show ?thesis by (simp add: P0)
    qed
    have "broadcast_outer padded (length padded) (i # is) = broadcast_outer ?P (length ?P) is"
      using inner Inr by simp
    also have "\<dots> = (if \<exists>k\<in>set is. isl (colres ?P k) then Inl shape_mismatch
            else Inr (?P[0 := map (\<lambda>k. if k \<in> set is then projr (colres ?P k)
                                             else ?P ! 0 ! k) [0..<length (?P ! 0)]]))"
      by (rule Cons.IH[OF prems])
    finally show ?thesis using Inr by (simp add: ex row)
  qed
qed


subsection \<open>The loops on typed elements and on values\<close>

lemma rect_update:
  assumes "rect m V" "i < m"
  shows "rect m (V[0 := (V ! 0)[i := v]])"
proof -
  have "V ! 0 \<in> set V" using assms(1) by (simp add: rect_def)
  then have "length ((V ! 0)[i := v]) = m" using assms(1) by (simp add: rect_def)
  moreover have "set (V[0 := (V ! 0)[i := v]]) \<subseteq> insert ((V ! 0)[i := v]) (set V)"
    by (rule set_update_subset_insert)
  ultimately show ?thesis using assms(1) unfolding rect_def by auto
qed

lemma rect_nth: "rect m V \<Longrightarrow> j < length V \<Longrightarrow> length (V ! j) = m"
  by (simp add: rect_def)

lemma kind_tag_value [simp]: "value_of (kind_tag k n) = n"
  by (simp add: kind_tag_def)

lemma kind_tag_differs [simp]: "differs ne (kind_tag k a) (kind_tag k b) = (a \<noteq> b)"
  by (simp add: kind_tag_def)

lemma map_map_update:
  "0 < length V \<Longrightarrow>
   (map (map f) V)[0 := (map (map f) V ! 0)[i := f x]] = map (map f) (V[0 := (V ! 0)[i := x]])"
  by (simp add: map_update)

lemma broadcast_step_sim:
  assumes "rect m V" "i < m" "j < length V"
  shows "broadcast_step_np ne (map (map (kind_tag k)) V) i j =
           map_sum (\<lambda>e. e) (map (map (kind_tag k))) (broadcast_step V i j)"
proof -
  have l0: "0 < length V" and r0: "i < length (V ! 0)" and rj: "i < length (V ! j)"
    using assms by (simp_all add: rect_def)
  have e0: "map (map (kind_tag k)) V ! 0 ! i = kind_tag k (V ! 0 ! i)"
    using l0 r0 by simp
  have ej: "map (map (kind_tag k)) V ! j ! i = kind_tag k (V ! j ! i)"
    using assms(3) rj by simp
  have upd: "(map (map (kind_tag k)) V)[0 := (map (map (kind_tag k)) V ! 0)[i := kind_tag k x]]
             = map (map (kind_tag k)) (V[0 := (V ! 0)[i := x]])" for x
    using l0 by (rule map_map_update)
  show ?thesis
    unfolding broadcast_step_np_def broadcast_step_def Let_def e0 ej
    by (simp add: upd)
qed

lemma broadcast_step_rect:
  assumes "rect m V" "i < m" "broadcast_step V i j = Inr V'"
  shows "rect m V' \<and> length V' = length V"
proof -
  have "V' = V \<or> V' = V[0 := (V ! 0)[i := V ! j ! i]]"
    using assms(3) by (auto simp: broadcast_step_def Let_def split: if_splits)
  then show ?thesis using rect_update[OF assms(1,2)] assms(1) by auto
qed

lemma broadcast_inner_sim:
  assumes "rect m V" "i < m" "\<forall>j\<in>set js. j < length V"
  shows "broadcast_inner_np ne (map (map (kind_tag k)) V) i js =
           map_sum (\<lambda>e. e) (map (map (kind_tag k))) (broadcast_inner V i js)"
  using assms
proof (induction js arbitrary: V)
  case Nil
  then show ?case by simp
next
  case (Cons j js)
  have j: "j < length V" using Cons.prems by simp
  note st = broadcast_step_sim[OF Cons.prems(1,2) j, of ne k]
  show ?case
  proof (cases "broadcast_step V i j")
    case (Inl e)
    then show ?thesis using st by simp
  next
    case (Inr V')
    from broadcast_step_rect[OF Cons.prems(1,2) Inr]
    have r: "rect m V'" and l: "length V' = length V" by simp_all
    have js: "\<forall>j\<in>set js. j < length V'" using Cons.prems(3) l by simp
    show ?thesis using st Inr Cons.IH[OF r Cons.prems(2) js] by simp
  qed
qed

lemma broadcast_inner_rect:
  assumes "rect m V" "i < m" "broadcast_inner V i js = Inr V'"
  shows "rect m V' \<and> length V' = length V"
  using assms
proof (induction js arbitrary: V)
  case Nil
  then show ?case by simp
next
  case (Cons j js)
  from Cons.prems(3) obtain V1 where s: "broadcast_step V i j = Inr V1"
    and t: "broadcast_inner V1 i js = Inr V'"
    by (auto split: sum.splits)
  from broadcast_step_rect[OF Cons.prems(1,2) s]
  have r: "rect m V1" and l: "length V1 = length V" by simp_all
  from Cons.IH[OF r Cons.prems(2) t] l show ?case by simp
qed

lemma broadcast_outer_sim:
  assumes "rect m V" "\<forall>i\<in>set is. i < m"
  shows "broadcast_outer_np ne (map (map (kind_tag k)) V) (length V) is =
           map_sum (\<lambda>e. e) (map (map (kind_tag k))) (broadcast_outer V (length V) is)"
  using assms
proof (induction "is" arbitrary: V)
  case Nil
  then show ?case by simp
next
  case (Cons i "is")
  have i: "i < m" using Cons.prems by simp
  have js: "\<forall>j\<in>set [1..<length V]. j < length V" by simp
  note inn = broadcast_inner_sim[OF Cons.prems(1) i js, of ne k]
  show ?case
  proof (cases "broadcast_inner V i [1..<length V]")
    case (Inl e)
    then show ?thesis using inn by simp
  next
    case (Inr V')
    from broadcast_inner_rect[OF Cons.prems(1) i Inr]
    have r: "rect m V'" and l: "length V' = length V" by simp_all
    have rest: "\<forall>i\<in>set is. i < m" using Cons.prems(2) by simp
    have "broadcast_outer_np ne (map (map (kind_tag k)) V') (length V) is =
            map_sum (\<lambda>e. e) (map (map (kind_tag k))) (broadcast_outer V' (length V) is)"
      using Cons.IH[OF r rest] unfolding l .
    then show ?thesis using inn Inr by simp
  qed
qed

lemma broadcast_outer_rect:
  assumes "rect m V" "\<forall>i\<in>set is. i < m" "broadcast_outer V (length V) is = Inr V'"
  shows "rect m V' \<and> length V' = length V"
  using assms
proof (induction "is" arbitrary: V)
  case Nil
  then show ?case by simp
next
  case (Cons i "is")
  have i: "i < m" using Cons.prems by simp
  from Cons.prems(3) obtain V1 where s: "broadcast_inner V i [1..<length V] = Inr V1"
    and t: "broadcast_outer V1 (length V) is = Inr V'"
    by (auto split: sum.splits)
  from broadcast_inner_rect[OF Cons.prems(1) i s]
  have r: "rect m V1" and l: "length V1 = length V" by simp_all
  have rest: "\<forall>i\<in>set is. i < m" using Cons.prems(2) by simp
  from Cons.IH[OF r rest] t l show ?case by simp
qed

lemma length_le_maxlen: "s \<in> set shapes \<Longrightarrow> length s \<le> maxlen shapes"
  by (simp add: maxlen_def)

lemma length_pad_shape: "length s \<le> m \<Longrightarrow> length (pad_shape m s) = m"
  by (simp add: pad_shape_def)

lemma maxlen_map [simp]: "maxlen (map (map f) shapes) = maxlen shapes"
  by (simp add: maxlen_def comp_def)

lemma pad_shape_np_ints: "pad_shape_np m (map PyInt s) = map PyInt (pad_shape m s)"
  by (simp add: pad_shape_np_def pad_shape_def)

lemma store_int: "store k (PyInt n) = kind_tag k (value_conv k n)"
  by (simp add: store_def kind_tag_def value_conv_def)

lemma padded_np_ints:
  "padded_np (map (map PyInt) shapes) =
     map (map (kind_tag (int_kind shapes)))
       (map (map (value_conv (int_kind shapes))) (map (pad_shape (maxlen shapes)) shapes))"
  by (simp add: padded_np_def np_array_def int_kind_def pad_shape_np_ints store_int comp_def)

lemma padded_shapes_conv:
  "padded_shapes shapes =
     map (map (value_conv (int_kind shapes))) (map (pad_shape (maxlen shapes)) shapes)"
  by (simp add: padded_shapes_def padded_np_ints comp_def)

lemma padded_np_tagged:
  "padded_np (map (map PyInt) shapes) = map (map (kind_tag (int_kind shapes))) (padded_shapes shapes)"
  by (simp only: padded_np_ints padded_shapes_conv)

lemma padded_rows:
  "length (padded_shapes shapes) = length shapes"
  "p \<in> set (padded_shapes shapes) \<Longrightarrow> length p = maxlen shapes"
  by (auto simp: padded_shapes_conv length_pad_shape length_le_maxlen)

lemma padded_row0: "shapes \<noteq> [] \<Longrightarrow> length (padded_shapes shapes ! 0) = maxlen shapes"
  by (rule padded_rows(2)) (simp add: padded_rows(1))

lemma padded_rect: "shapes \<noteq> [] \<Longrightarrow> rect (maxlen shapes) (padded_shapes shapes)"
  by (simp add: rect_def padded_rows)

lemma broadcast_shapes_np_ints:
  assumes "shapes \<noteq> []"
  shows "broadcast_shapes_np ne (map (map PyInt) shapes) =
           (case broadcast_outer (padded_shapes shapes) (length shapes) [0..<maxlen shapes] of
              Inl e \<Rightarrow> Inl e
            | Inr P \<Rightarrow> Inr (map (kind_tag (int_kind shapes)) (P ! 0)))"
proof -
  let ?V = "padded_shapes shapes" and ?k = "int_kind shapes"
  have r: "rect (maxlen shapes) ?V" using assms by (rule padded_rect)
  have idx: "\<forall>i\<in>set [0..<maxlen shapes]. i < maxlen shapes" by simp
  have l: "length ?V = length shapes" by (rule padded_rows(1))
  have sim: "broadcast_outer_np ne (map (map (kind_tag ?k)) ?V) (length shapes) [0..<maxlen shapes] =
           map_sum (\<lambda>e. e) (map (map (kind_tag ?k))) (broadcast_outer ?V (length shapes) [0..<maxlen shapes])"
    using broadcast_outer_sim[OF r idx, of ne ?k] unfolding l .
  show ?thesis
  proof (cases "broadcast_outer ?V (length shapes) [0..<maxlen shapes]")
    case (Inl e)
    then show ?thesis
      using assms sim by (simp add: broadcast_shapes_np_def padded_np_tagged)
  next
    case (Inr P)
    then have "broadcast_outer ?V (length ?V) [0..<maxlen shapes] = Inr P" unfolding l .
    from broadcast_outer_rect[OF r idx this] have "rect (maxlen shapes) P" by (rule conjunct1)
    then have "0 < length P" unfolding rect_def by (rule conjunct1)
    then have "map (map (kind_tag ?k)) P ! 0 = map (kind_tag ?k) (P ! 0)" by simp
    then show ?thesis
      using assms sim Inr by (simp add: broadcast_shapes_np_def padded_np_tagged)
  qed
qed

lemma broadcast_shapes_unfold:
  assumes "shapes \<noteq> []"
  shows "broadcast_shapes shapes =
           (case broadcast_outer (padded_shapes shapes) (length shapes) [0..<maxlen shapes] of
              Inl e \<Rightarrow> Inl e
            | Inr P \<Rightarrow> Inr (P ! 0))"
  unfolding broadcast_shapes_def broadcast_shapes_np_ints[OF assms]
  by (simp add: comp_def split: sum.splits)

lemma broadcast_shapes_np_values:
  assumes "shapes \<noteq> []"
  shows "broadcast_shapes_np ne (map (map PyInt) shapes) =
           map_sum (\<lambda>e. e) (map (kind_tag (int_kind shapes))) (broadcast_shapes shapes)"
  unfolding broadcast_shapes_unfold[OF assms] broadcast_shapes_np_ints[OF assms]
  by (simp split: sum.splits)

lemma broadcast_shapes_colres:
  assumes "shapes \<noteq> []"
  shows "broadcast_shapes shapes =
           (if \<exists>i<maxlen shapes. isl (colres (padded_shapes shapes) i) then Inl shape_mismatch
            else Inr (map (\<lambda>i. projr (colres (padded_shapes shapes) i)) [0..<maxlen shapes]))"
proof -
  let ?P = "padded_shapes shapes"
  have len: "0 < length ?P" using assms by (simp add: padded_rows(1))
  have row: "length (?P ! 0) = maxlen shapes" using assms by (rule padded_row0)
  have "broadcast_outer ?P (length ?P) [0..<maxlen shapes] =
          (if \<exists>i\<in>set [0..<maxlen shapes]. isl (colres ?P i) then Inl shape_mismatch
           else Inr (?P[0 := map (\<lambda>k. if k \<in> set [0..<maxlen shapes] then projr (colres ?P k)
                                       else ?P ! 0 ! k) [0..<length (?P ! 0)]]))"
    by (rule broadcast_outer_colres[OF len]) (simp_all add: row)
  moreover have "map (\<lambda>k. if k \<in> set [0..<maxlen shapes] then projr (colres ?P k)
                           else ?P ! 0 ! k) [0..<length (?P ! 0)]
               = map (\<lambda>i. projr (colres ?P i)) [0..<maxlen shapes]"
    by (simp add: row)
  ultimately have outer: "broadcast_outer ?P (length shapes) [0..<maxlen shapes] =
          (if \<exists>i<maxlen shapes. isl (colres ?P i) then Inl shape_mismatch
           else Inr (?P[0 := map (\<lambda>i. projr (colres ?P i)) [0..<maxlen shapes]]))"
    by (simp add: padded_rows(1))
  have "\<And>row. ?P[0 := row] ! 0 = row" using len by simp
  then show ?thesis
    using assms unfolding broadcast_shapes_unfold[OF assms] outer by simp
qed

lemma broadcast_shapes_cong:
  assumes "shapes \<noteq> []" "shapes' \<noteq> []" "maxlen shapes = maxlen shapes'"
    and "\<And>i. i < maxlen shapes \<Longrightarrow> colres (padded_shapes shapes) i = colres (padded_shapes shapes') i"
  shows "broadcast_shapes shapes = broadcast_shapes shapes'"
proof -
  have ex: "(\<exists>i<maxlen shapes. isl (colres (padded_shapes shapes) i))
          = (\<exists>i<maxlen shapes. isl (colres (padded_shapes shapes') i))"
    using assms(4) by auto
  have mp: "map (\<lambda>i. projr (colres (padded_shapes shapes) i)) [0..<maxlen shapes]
          = map (\<lambda>i. projr (colres (padded_shapes shapes') i)) [0..<maxlen shapes]"
    using assms(4) by (intro map_cong) auto
  show ?thesis
    unfolding broadcast_shapes_colres[OF assms(1)] broadcast_shapes_colres[OF assms(2)] ex mp
    unfolding assms(3) ..
qed

lemma conflict_Cons:
  "conflict (r # x # xs) =
     ((r \<noteq> 1 \<and> x \<noteq> 1 \<and> r \<noteq> x) \<or> conflict ((if r = 1 then x else r) # xs))"
  unfolding conflict_def by (cases "r = 1"; cases "x = 1"; cases "r = x") auto

lemma col_fold_isl: "isl (col_fold r xs) = conflict (r # xs)"
proof (induction xs arbitrary: r)
  case Nil
  then show ?case by (simp add: conflict_def)
next
  case (Cons x xs)
  show ?case
    unfolding conflict_Cons using Cons.IH
    by (auto simp: dim_merge_def)
qed

lemma col_fold_value:
  assumes "col_fold r xs = Inr v"
  shows "(v = 1 \<longleftrightarrow> (\<forall>a\<in>set (r # xs). a = 1)) \<and> v \<in> set (r # xs)
         \<and> (\<forall>a\<in>set (r # xs). a \<noteq> 1 \<longrightarrow> a = v)"
  using assms
proof (induction xs arbitrary: r)
  case Nil
  then show ?case by simp
next
  case (Cons x xs)
  from Cons.prems obtain r' where m: "dim_merge r x = Inr r'" and f: "col_fold r' xs = Inr v"
    by (auto split: sum.splits)
  have r': "r' = (if r = 1 then x else r)" "x = 1 \<or> r = 1 \<or> x = r"
    using m by (auto simp: dim_merge_def split: if_splits)
  from Cons.IH[OF f] r' show ?case by (cases "r = 1"; cases "x = 1") auto
qed

lemma column_rows:
  assumes "0 < length P"
  shows "P ! 0 ! i # map (\<lambda>j. P ! j ! i) [1..<length P] = map (\<lambda>p. p ! i) P"
proof -
  have "map (\<lambda>p. p ! i) P = map (\<lambda>p. p ! i) (map (\<lambda>j. P ! j) [0..<length P])"
    by (simp only: map_nth)
  also have "\<dots> = map (\<lambda>j. P ! j ! i) [0..<length P]" by simp
  also have "[0..<length P] = 0 # [1..<length P]" using assms by (simp add: upt_conv_Cons)
  finally show ?thesis by simp
qed

lemma colres_isl:
  "0 < length P \<Longrightarrow> isl (colres P i) = conflict (map (\<lambda>p. p ! i) P)"
  unfolding colres_def col_fold_isl by (simp only: column_rows)

lemma colres_value:
  assumes "0 < length P" "colres P i = Inr v"
  shows "(v = 1 \<longleftrightarrow> (\<forall>p\<in>set P. p ! i = 1)) \<and> (\<exists>p\<in>set P. p ! i = v)
         \<and> (\<forall>p\<in>set P. p ! i \<noteq> 1 \<longrightarrow> p ! i = v)"
proof -
  have "set (P ! 0 ! i # map (\<lambda>j. P ! j ! i) [1..<length P]) = (\<lambda>p. p ! i) ` set P"
    using column_rows[OF assms(1), of i] by (metis set_map)
  with col_fold_value[OF assms(2)[unfolded colres_def]] show ?thesis
    by (simp only: ball_simps image_iff) blast
qed


lemma maxlen2: "maxlen [a, b] = max (length a) (length b)"
  by (simp add: maxlen_def max.commute)

lemma maxlen3: "maxlen [a, b, c] = max (max (length a) (length b)) (length c)"
  by (simp add: maxlen_def max.commute max.left_commute)

lemma colres2: "colres [p, q] i = dim_merge (p ! i) (q ! i)"
  by (simp add: colres_def split: sum.splits)

lemma colres3:
  "colres [p, q, r] i =
     (case dim_merge (p ! i) (q ! i) of Inl e \<Rightarrow> Inl e | Inr v \<Rightarrow> dim_merge v (r ! i))"
  by (simp add: colres_def upt_rec split: sum.splits)

lemma dim_merge_commute: "dim_merge x y = dim_merge y x"
  by (simp add: dim_merge_def)

lemma pad_shape_split:
  assumes "length s \<le> m" "m \<le> n"
  shows "pad_shape n s = replicate (n - m) 1 @ pad_shape m s"
proof -
  have "n - length s = (n - m) + (m - length s)" using assms by simp
  then show ?thesis by (simp add: pad_shape_def replicate_add)
qed

lemma elem_kind_small: "n < 2 ^ 63 \<Longrightarrow> elem_kind (PyInt n) = int64"
  by simp

lemma array_kind_int64:
  assumes "\<forall>x\<in>set xs. elem_kind x = int64" and "xs \<noteq> []"
  shows "array_kind_of xs = int64"
proof -
  obtain y where y: "y \<in> set xs" using assms(2) by (cases xs) auto
  have "elem_kind ` set xs \<subseteq> {int64}" using assms(1) by auto
  moreover have "int64 \<in> elem_kind ` set xs" using y assms(1) by force
  ultimately have "elem_kind ` set xs = {int64}" by blast
  then show ?thesis using assms(2) by (simp add: array_kind_of_def Let_def)
qed

lemma array_kind_set:
  assumes "set xs = set ys"
  shows "array_kind_of xs = array_kind_of ys"
proof -
  have e: "(xs = []) = (ys = [])" using assms by (metis set_empty)
  have "set (map elem_kind xs) = set (map elem_kind ys)" using assms by simp
  then show ?thesis unfolding array_kind_of_def Let_def e by simp
qed

lemma small_pad: "small s \<Longrightarrow> small (pad_shape m s)"
  by (auto simp: small_def pad_shape_def)

lemma padded_shapes_small:
  assumes "\<forall>s\<in>set shapes. small s"
  shows "padded_shapes shapes = map (pad_shape (maxlen shapes)) shapes"
proof -
  let ?rows = "map (pad_shape (maxlen shapes)) shapes"
  let ?xs = "concat (map (pad_shape_np (maxlen shapes)) (map (map PyInt) shapes))"
  have xs: "?xs = map PyInt (concat ?rows)"
    by (simp add: pad_shape_np_ints map_concat comp_def)
  have "\<forall>r\<in>set ?rows. small r" using assms by (auto intro: small_pad)
  then have "\<forall>n\<in>set (concat ?rows). n < 2 ^ 63" by (auto simp: small_def)
  then have "\<forall>x\<in>set ?xs. elem_kind x = int64" unfolding xs by auto
  then have k: "?xs \<noteq> [] \<Longrightarrow> int_kind shapes = int64"
    unfolding int_kind_def by (rule array_kind_int64)
  show ?thesis
  proof (cases "?xs = []")
    case True
    then have "concat ?rows = []" unfolding xs by simp
    then have "\<forall>r\<in>set ?rows. r = []" by simp
    then have "map (map (value_conv (int_kind shapes))) ?rows = ?rows"
      by (intro map_idI) auto
    then show ?thesis by (simp only: padded_shapes_conv)
  next
    case False
    then have "int_kind shapes = int64" by (rule k)
    then have "value_conv (int_kind shapes) = (\<lambda>n. n)"
      by (simp add: value_conv_def fun_eq_iff)
    then show ?thesis by (simp add: padded_shapes_conv)
  qed
qed

lemma int_kind_swap: "int_kind [a, b] = int_kind [b, a]"
proof -
  have m: "maxlen [a, b] = maxlen [b, a]" by (simp add: maxlen2 max.commute)
  show ?thesis unfolding int_kind_def m by (rule array_kind_set) auto
qed

lemma broadcast_shapes2_Inr:
  assumes "broadcast_shapes [a, b] = Inr ab" and "small a" "small b"
  shows "length ab = maxlen [a, b]"
    and "k < maxlen [a, b] \<Longrightarrow>
         dim_merge (pad_shape (maxlen [a, b]) a ! k) (pad_shape (maxlen [a, b]) b ! k) = Inr (ab ! k)"
proof -
  let ?m = "maxlen [a, b]"
  have ps: "padded_shapes [a, b] = [pad_shape ?m a, pad_shape ?m b]"
    using assms(2,3) by (simp add: padded_shapes_small)
  have char: "\<not> (\<exists>i<?m. isl (colres (padded_shapes [a, b]) i))"
    "ab = map (\<lambda>i. projr (colres (padded_shapes [a, b]) i)) [0..<?m]"
    using assms(1) by (auto simp: broadcast_shapes_colres split: if_splits)
  show "length ab = ?m" using char(2) by simp
  assume k: "k < ?m"
  then have "\<not> isl (colres (padded_shapes [a, b]) k)" using char(1) by blast
  moreover have "ab ! k = projr (colres (padded_shapes [a, b]) k)"
    using char(2) k by simp
  ultimately show "dim_merge (pad_shape ?m a ! k) (pad_shape ?m b ! k) = Inr (ab ! k)"
    by (simp add: ps colres2)
qed

lemma broadcast_shapes2_small:
  assumes "broadcast_shapes [a, b] = Inr ab" and "small a" "small b"
  shows "small ab"
proof -
  let ?m = "maxlen [a, b]"
  have la: "length a \<le> ?m" and lb: "length b \<le> ?m" by (simp_all add: maxlen2)
  have sa: "small (pad_shape ?m a)" and sb: "small (pad_shape ?m b)"
    using assms(2,3) by (simp_all add: small_pad)
  have "ab ! k < 2 ^ 63" if k: "k < ?m" for k
  proof -
    have ka: "pad_shape ?m a ! k < 2 ^ 63"
      using sa k la unfolding small_def by (simp add: length_pad_shape)
    have kb: "pad_shape ?m b ! k < 2 ^ 63"
      using sb k lb unfolding small_def by (simp add: length_pad_shape)
    from broadcast_shapes2_Inr(2)[OF assms k] ka kb show ?thesis
      by (auto simp: dim_merge_def split: if_splits)
  qed
  then show ?thesis
    unfolding small_def using broadcast_shapes2_Inr(1)[OF assms]
    by (metis in_set_conv_nth)
qed

lemma broadcast_shapes_columns:
  assumes "shapes \<noteq> []"
  shows "((\<exists>e. broadcast_shapes shapes = Inl e) \<longleftrightarrow>
            (\<exists>i<maxlen shapes. \<exists>p\<in>set (padded_shapes shapes). \<exists>q\<in>set (padded_shapes shapes).
               p ! i \<noteq> 1 \<and> q ! i \<noteq> 1 \<and> p ! i \<noteq> q ! i))"
    and "\<forall>e. broadcast_shapes shapes = Inl e \<longrightarrow> e = shape_mismatch"
    and "\<forall>r. broadcast_shapes shapes = Inr r \<longrightarrow>
           length r = maxlen shapes \<and>
           (\<forall>i<maxlen shapes.
              (r ! i = 1 \<longleftrightarrow> (\<forall>p\<in>set (padded_shapes shapes). p ! i = 1)) \<and>
              (\<exists>p\<in>set (padded_shapes shapes). p ! i = r ! i) \<and>
              (\<forall>p\<in>set (padded_shapes shapes). p ! i \<noteq> 1 \<longrightarrow> p ! i = r ! i))"
proof -
  let ?P = "padded_shapes shapes" and ?m = "maxlen shapes"
  have len: "0 < length ?P" using assms by (simp add: padded_rows(1))
  have char: "broadcast_shapes shapes =
           (if \<exists>i<?m. isl (colres ?P i) then Inl shape_mismatch
            else Inr (map (\<lambda>i. projr (colres ?P i)) [0..<?m]))"
    using assms by (rule broadcast_shapes_colres)
  have confl: "\<And>i. isl (colres ?P i) \<longleftrightarrow>
      (\<exists>p\<in>set ?P. \<exists>q\<in>set ?P. p ! i \<noteq> 1 \<and> q ! i \<noteq> 1 \<and> p ! i \<noteq> q ! i)"
    unfolding colres_isl[OF len] conflict_def by auto
  show "((\<exists>e. broadcast_shapes shapes = Inl e) \<longleftrightarrow>
            (\<exists>i<?m. \<exists>p\<in>set ?P. \<exists>q\<in>set ?P. p ! i \<noteq> 1 \<and> q ! i \<noteq> 1 \<and> p ! i \<noteq> q ! i))"
    unfolding char confl[symmetric] by auto
  show "\<forall>e. broadcast_shapes shapes = Inl e \<longrightarrow> e = shape_mismatch"
    unfolding char by auto
  show "\<forall>r. broadcast_shapes shapes = Inr r \<longrightarrow>
           length r = ?m \<and>
           (\<forall>i<?m.
              (r ! i = 1 \<longleftrightarrow> (\<forall>p\<in>set ?P. p ! i = 1)) \<and>
              (\<exists>p\<in>set ?P. p ! i = r ! i) \<and>
              (\<forall>p\<in>set ?P. p ! i \<noteq> 1 \<longrightarrow> p ! i = r ! i))"
  proof (intro allI impI)
    fix r assume r: "broadcast_shapes shapes = Inr r"
    then have ok: "\<not> (\<exists>i<?m. isl (colres ?P i))"
      and rdef: "r = map (\<lambda>i. projr (colres ?P i)) [0..<?m]"
      unfolding char by (auto split: if_splits)
    have "\<And>i. i < ?m \<Longrightarrow> colres ?P i = Inr (r ! i)"
    proof -
      fix i assume i: "i < ?m"
      then have "\<not> isl (colres ?P i)" using ok by blast
      moreover have "r ! i = projr (colres ?P i)" using rdef i by simp
      ultimately show "colres ?P i = Inr (r ! i)" by (metis sum.collapse(2))
    qed
    then have "\<And>i. i < ?m \<Longrightarrow>
              (r ! i = 1 \<longleftrightarrow> (\<forall>p\<in>set ?P. p ! i = 1)) \<and>
              (\<exists>p\<in>set ?P. p ! i = r ! i) \<and>
              (\<forall>p\<in>set ?P. p ! i \<noteq> 1 \<longrightarrow> p ! i = r ! i)"
      using colres_value[OF len] by blast
    moreover have "length r = ?m" using rdef by simp
    ultimately show "length r = ?m \<and>
           (\<forall>i<?m.
              (r ! i = 1 \<longleftrightarrow> (\<forall>p\<in>set ?P. p ! i = 1)) \<and>
              (\<exists>p\<in>set ?P. p ! i = r ! i) \<and>
              (\<forall>p\<in>set ?P. p ! i \<noteq> 1 \<longrightarrow> p ! i = r ! i))"
      by blast
  qed
qed

subsection \<open>Evaluation on concrete shapes\<close>

lemma broadcast_shapes_small_eval:
  assumes "shapes \<noteq> []" and "\<forall>s\<in>set shapes. small s"
  shows "broadcast_shapes shapes =
           (case broadcast_outer (map (pad_shape (maxlen shapes)) shapes) (length shapes)
                   [0..<maxlen shapes] of
              Inl e \<Rightarrow> Inl e
            | Inr P \<Rightarrow> Inr (P ! 0))"
  unfolding broadcast_shapes_unfold[OF assms(1)] padded_shapes_small[OF assms(2)] ..

lemmas small_eval_simps =
  small_def maxlen_def pad_shape_def broadcast_step_def upt_rec

lemma bc_23_3: "broadcast_shapes [[2, 3], [3]] = Inr [2, 3]"
  by (subst broadcast_shapes_small_eval) (simp_all add: small_eval_simps)

lemma bc_2_3: "broadcast_shapes [[2], [3]] = Inl shape_mismatch"
  by (subst broadcast_shapes_small_eval) (simp_all add: small_eval_simps)

lemma bc_413: "broadcast_shapes [[4, 1], [3], [2, 1, 3]] = Inr [2, 4, 3]"
  by (subst broadcast_shapes_small_eval) (simp_all add: small_eval_simps)

lemma bc_23_0_3: "broadcast_shapes [[2, 3], [], [3]] = Inr [2, 3]"
  by (subst broadcast_shapes_small_eval) (simp_all add: small_eval_simps)

lemma bc_3_0_3: "broadcast_shapes [[3], [], [3]] = Inr [3]"
  by (subst broadcast_shapes_small_eval) (simp_all add: small_eval_simps)

lemma bc_0_0: "broadcast_shapes [[], []] = Inr []"
  by (subst broadcast_shapes_small_eval) (simp_all add: small_eval_simps)

lemma bc_0_3: "broadcast_shapes [[], [3]] = Inr [3]"
  by (subst broadcast_shapes_small_eval) (simp_all add: small_eval_simps)

lemma bc_3_3_3: "broadcast_shapes [[3], [3], [3]] = Inr [3]"
  by (subst broadcast_shapes_small_eval) (simp_all add: small_eval_simps)

lemma bc_3_3: "broadcast_shapes [[3], [3]] = Inr [3]"
  by (subst broadcast_shapes_small_eval) (simp_all add: small_eval_simps)

lemma bc_1_5: "broadcast_shapes [[1], [5]] = Inr [5]"
  by (subst broadcast_shapes_small_eval) (simp_all add: small_eval_simps)

lemma bc_21_3: "broadcast_shapes [[2, 1], [3]] = Inr [2, 3]"
  by (subst broadcast_shapes_small_eval) (simp_all add: small_eval_simps)

lemma bc_21_3_411: "broadcast_shapes [[2, 1], [3], [4, 1, 1]] = Inr [4, 2, 3]"
  by (subst broadcast_shapes_small_eval) (simp_all add: small_eval_simps)

lemma broadcast_shapes_np_small:
  assumes "shapes \<noteq> []" and "\<forall>s\<in>set shapes. small s"
  shows "broadcast_shapes_np ne (map (map PyInt) shapes) =
           map_sum (\<lambda>e. e) (map PyInt) (broadcast_shapes shapes)"
proof -
  let ?xs = "concat (map (pad_shape_np (maxlen shapes)) (map (map PyInt) shapes))"
  let ?rows = "map (pad_shape (maxlen shapes)) shapes"
  have xs: "?xs = map PyInt (concat ?rows)"
    by (simp add: pad_shape_np_ints map_concat comp_def)
  have v: "broadcast_shapes_np ne (map (map PyInt) shapes) =
             map_sum (\<lambda>e. e) (map (kind_tag (int_kind shapes))) (broadcast_shapes shapes)"
    using assms(1) by (rule broadcast_shapes_np_values)
  show ?thesis
  proof (cases "?xs = []")
    case True
    then have "concat ?rows = []" unfolding xs by simp
    then have e: "\<forall>r\<in>set ?rows. r = []" by simp
    obtain s where s: "s \<in> set shapes" using assms(1) by (cases shapes) auto
    then have "pad_shape (maxlen shapes) s = []" using e by simp
    moreover have "length (pad_shape (maxlen shapes) s) = maxlen shapes"
      using s by (intro length_pad_shape length_le_maxlen)
    ultimately have m: "maxlen shapes = 0" by simp
    have "r = []" if "broadcast_shapes shapes = Inr r" for r
      using broadcast_shapes_columns(3)[OF assms(1)] that m by simp
    then show ?thesis unfolding v by (cases "broadcast_shapes shapes") auto
  next
    case False
    have "\<forall>r\<in>set ?rows. small r" using assms(2) by (auto intro: small_pad)
    then have "\<forall>n\<in>set (concat ?rows). n < 2 ^ 63" by (auto simp: small_def)
    then have "\<forall>x\<in>set ?xs. elem_kind x = int64" unfolding xs by auto
    then have "int_kind shapes = int64"
      unfolding int_kind_def using False by (rule array_kind_int64)
    then show ?thesis unfolding v by (simp add: kind_tag_def)
  qed
qed

lemma float64_round_examples:
  "float64_round 1 = 1" "float64_round (Suc 0) = Suc 0" "float64_round 2 = 2"
  "float64_round 9223372036854775808 = 9223372036854775808"
  "float64_round 9223372036854775809 = 9223372036854775808"
  by (simp_all add: float64_round_def bit_length.simps Let_def)

lemmas np_eval_simps =
  broadcast_shapes_np_def padded_np_def np_array_def array_kind_of_def store_def maxlen_def
  pad_shape_np_def broadcast_step_np_def Let_def upt_rec float64_round_examples

lemma big1:
  "broadcast_shapes_np ne [[PyInt (2 ^ 63), PyInt 2], [PyInt (2 ^ 63 + 1), PyInt 2]]
     = Inr [PyFloat (2 ^ 63), PyFloat 2]"
  by (simp add: np_eval_simps)

lemma big0:
  "broadcast_shapes_np ne [[PyInt (2 ^ 63), PyInt 1], [PyInt (2 ^ 63 + 1), PyInt 1]]
     = Inr [PyFloat (2 ^ 63), PyFloat 1]"
  by (simp add: np_eval_simps)

lemma big2:
  "broadcast_shapes_np ne [[PyFloat (2 ^ 63), PyFloat 1], [PyInt 1, PyInt (2 ^ 64)]]
     = Inr [PyFloat (2 ^ 63), PyInt (2 ^ 64)]"
  by (simp add: np_eval_simps)

lemma big3:
  "broadcast_shapes_np ne
     [[PyInt (2 ^ 63), PyInt 1], [PyInt (2 ^ 63 + 1), PyInt 1], [PyInt 1, PyInt (2 ^ 64)]]
     = Inl shape_mismatch"
  by (simp add: np_eval_simps)

subsection \<open>The broadcasting rule\<close>

text \<open>
  Claim C1, for the shapes that arrays of the backend can have. For a non-empty list of
  shapes all of whose sizes are below \<open>2^63\<close>, \<open>broadcast_shapes\<close> pads every shape
  on the left with ones up to the greatest length, and then works position by position:
  it fails, with the shape-mismatch error, exactly when two padded shapes hold different
  sizes other than 1 at one position; otherwise the result has the common length, its size
  at a position is 1 only if every padded shape has 1 there, and else it is the one size
  other than 1 found there; the numbers returned are integers. In particular \<open>(2,3)\<close>
  and \<open>(3,)\<close> give \<open>(2,3)\<close>, \<open>(1,)\<close> and \<open>(5,)\<close> give \<open>(5,)\<close>, and \<open>(2,)\<close> and
  \<open>(3,)\<close> fail.
\<close>

theorem broadcast_shapes_rule:
  assumes "shapes \<noteq> []" and "\<forall>s\<in>set shapes. \<forall>d\<in>set s. d < 2 ^ 63"
  shows "(\<forall>s\<in>set shapes. length s \<le> maxlen shapes)
       \<and> (\<exists>s\<in>set shapes. length s = maxlen shapes)
       \<and> padded_shapes shapes = map (\<lambda>s. replicate (maxlen shapes - length s) 1 @ s) shapes
       \<and> ((\<exists>e. broadcast_shapes shapes = Inl e) \<longleftrightarrow>
            (\<exists>i<maxlen shapes. \<exists>p\<in>set (padded_shapes shapes). \<exists>q\<in>set (padded_shapes shapes).
               p ! i \<noteq> 1 \<and> q ! i \<noteq> 1 \<and> p ! i \<noteq> q ! i))
       \<and> (\<forall>e. broadcast_shapes shapes = Inl e \<longrightarrow> e = shape_mismatch)
       \<and> (\<forall>r. broadcast_shapes shapes = Inr r \<longrightarrow>
             length r = maxlen shapes \<and>
             (\<forall>i<maxlen shapes.
                (r ! i = 1 \<longleftrightarrow> (\<forall>p\<in>set (padded_shapes shapes). p ! i = 1)) \<and>
                (\<exists>p\<in>set (padded_shapes shapes). p ! i = r ! i) \<and>
                (\<forall>p\<in>set (padded_shapes shapes). p ! i \<noteq> 1 \<longrightarrow> p ! i = r ! i)))
       \<and> (\<forall>ne. broadcast_shapes_np ne (map (map PyInt) shapes) =
                  map_sum (\<lambda>e. e) (map PyInt) (broadcast_shapes shapes))
       \<and> broadcast_shapes [[2, 3], [3]] = Inr [2, 3]
       \<and> broadcast_shapes [[1], [5]] = Inr [5]
       \<and> broadcast_shapes [[2], [3]] = Inl shape_mismatch"
proof -
  have sm: "\<forall>s\<in>set shapes. small s" using assms(2) by (simp add: small_def)
  have "Max (set (map length shapes)) \<in> set (map length shapes)"
    using assms(1) by (intro Max_in) simp_all
  then have longest: "\<exists>s\<in>set shapes. length s = maxlen shapes"
    unfolding maxlen_def by auto
  have pad: "padded_shapes shapes = map (\<lambda>s. replicate (maxlen shapes - length s) 1 @ s) shapes"
    by (simp add: padded_shapes_small[OF sm] pad_shape_def)
  have ints: "\<forall>ne. broadcast_shapes_np ne (map (map PyInt) shapes) =
                  map_sum (\<lambda>e. e) (map PyInt) (broadcast_shapes shapes)"
    using broadcast_shapes_np_small[OF assms(1) sm] by blast
  note cols = broadcast_shapes_columns[OF assms(1)]
  show ?thesis
    by (intro conjI ballI length_le_maxlen longest pad cols ints bc_23_3 bc_1_5 bc_2_3)
qed

theorem broadcast_shapes_rule_witness:
  "[[4, 1], [3], [2, 1, 3]] \<noteq> ([] :: shape list)
   \<and> (\<exists>r. broadcast_shapes [[4, 1], [3], [2, 1, 3]] = Inr r \<and> length r = 3)"
proof -
  have ne: "[[4, 1], [3], [2, 1, 3]] \<noteq> ([] :: shape list)" by simp
  have b: "\<forall>s\<in>set [[4, 1], [3], [2, 1, 3]]. \<forall>d\<in>set s. d < (2 :: nat) ^ 63" by simp
  have m: "maxlen [[4, 1], [3], [2, 1, 3 :: nat]] = 3" by (simp add: maxlen_def)
  from broadcast_shapes_rule[OF ne b]
  have "\<forall>r. broadcast_shapes [[4, 1], [3], [2, 1, 3]] = Inr r \<longrightarrow>
             length r = maxlen [[4, 1], [3], [2, 1, 3 :: nat]]"
    by blast
  then have "length [2, 4, 3 :: nat] = 3" using bc_413 m by simp
  then show ?thesis using ne bc_413 by blast
qed

text \<open>
  Without the bound the rule does not hold. The shapes \<open>(2^63, 2)\<close> and \<open>(2^63 + 1, 2)\<close>
  differ at the first position in sizes other than 1, but the array that holds them is a
  float array, in which both sizes are the float \<open>2^63\<close>: the call does not fail, and
  it returns floats.
\<close>

theorem broadcast_shapes_rule_counterexample:
  "broadcast_shapes [[2 ^ 63, 2], [2 ^ 63 + 1, 2]] = Inr [2 ^ 63, 2]
   \<and> broadcast_shapes_np exact_ne [[PyInt (2 ^ 63), PyInt 2], [PyInt (2 ^ 63 + 1), PyInt 2]]
       = Inr [PyFloat (2 ^ 63), PyFloat 2]
   \<and> [2 ^ 63, 2] ! 0 \<noteq> (1 :: nat)
   \<and> [2 ^ 63 + 1, 2] ! 0 \<noteq> (1 :: nat)
   \<and> [2 ^ 63, 2] ! 0 \<noteq> ([2 ^ 63 + 1, 2] ! 0 :: nat)"
  using big1[of exact_ne] by (simp add: broadcast_shapes_def)

subsection \<open>Associativity and commutativity\<close>

text \<open>
  Claim C9, for the shapes that arrays of the backend can have. When all sizes of \<open>a\<close>,
  \<open>b\<close> and \<open>c\<close> are below \<open>2^63\<close> and \<open>a\<close> and \<open>b\<close> broadcast to \<open>ab\<close>,
  broadcasting \<open>ab\<close> with \<open>c\<close> gives what broadcasting \<open>a\<close>, \<open>b\<close> and \<open>c\<close> together
  gives: the same shape when the second step succeeds, and the same error when it does
  not.
\<close>

theorem broadcast_shapes_assoc:
  assumes "broadcast_shapes [a, b] = Inr ab"
    and "\<forall>d\<in>set a. d < 2 ^ 63" and "\<forall>d\<in>set b. d < 2 ^ 63" and "\<forall>d\<in>set c. d < 2 ^ 63"
  shows "broadcast_shapes [ab, c] = broadcast_shapes [a, b, c]"
proof (rule broadcast_shapes_cong)
  let ?m2 = "maxlen [a, b]" and ?m3 = "maxlen [a, b, c]"
  have sa: "small a" and sb: "small b" and sc: "small c"
    using assms(2,3,4) by (simp_all add: small_def)
  have sab: "small ab" using assms(1) sa sb by (rule broadcast_shapes2_small)
  have lab: "length ab = ?m2" using assms(1) sa sb by (rule broadcast_shapes2_Inr(1))
  show m: "maxlen [ab, c] = ?m3" by (simp add: maxlen2 maxlen3 lab)
  have p2: "padded_shapes [ab, c] = [pad_shape ?m3 ab, pad_shape ?m3 c]"
    using sab sc by (simp add: padded_shapes_small m)
  have p3: "padded_shapes [a, b, c] = [pad_shape ?m3 a, pad_shape ?m3 b, pad_shape ?m3 c]"
    using sa sb sc by (simp add: padded_shapes_small)
  have le: "length a \<le> ?m2" "length b \<le> ?m2" "?m2 \<le> ?m3"
    by (simp_all add: maxlen2 maxlen3)
  have pa: "pad_shape ?m3 a = replicate (?m3 - ?m2) 1 @ pad_shape ?m2 a"
    by (rule pad_shape_split[OF le(1) le(3)])
  have pb: "pad_shape ?m3 b = replicate (?m3 - ?m2) 1 @ pad_shape ?m2 b"
    by (rule pad_shape_split[OF le(2) le(3)])
  have pab: "pad_shape ?m3 ab = replicate (?m3 - ?m2) 1 @ ab"
    by (simp add: pad_shape_def lab)
  fix i
  assume "i < maxlen [ab, c]"
  then have i: "i < ?m3" by (simp add: m)
  have "dim_merge (pad_shape ?m3 a ! i) (pad_shape ?m3 b ! i) = Inr (pad_shape ?m3 ab ! i)"
  proof (cases "i < ?m3 - ?m2")
    case True
    then show ?thesis unfolding pa pb pab by (simp add: nth_append dim_merge_def)
  next
    case False
    then have "i - (?m3 - ?m2) < ?m2" using i le(3) by simp
    from broadcast_shapes2_Inr(2)[OF assms(1) sa sb this] False
    show ?thesis unfolding pa pb pab by (simp add: nth_append)
  qed
  then show "colres (padded_shapes [ab, c]) i = colres (padded_shapes [a, b, c]) i"
    unfolding p2 p3 by (simp add: colres2 colres3)
qed simp_all

theorem broadcast_shapes_assoc_witness:
  "broadcast_shapes [[2, 1], [3]] = Inr [2, 3]
   \<and> broadcast_shapes [[2, 3], [4, 1, 1]] = broadcast_shapes [[2, 1], [3], [4, 1, 1]]
   \<and> broadcast_shapes [[2, 1], [3], [4, 1, 1]] = Inr [4, 2, 3]"
proof -
  have a: "\<forall>d\<in>set [2, 1]. d < (2 :: nat) ^ 63" by simp
  have b: "\<forall>d\<in>set [3]. d < (2 :: nat) ^ 63" by simp
  have c: "\<forall>d\<in>set [4, 1, 1]. d < (2 :: nat) ^ 63" by simp
  note eq = broadcast_shapes_assoc[OF bc_21_3 a b c]
  show ?thesis
    by (intro conjI bc_21_3 eq bc_21_3_411)
qed

text \<open>
  Without the bound the two sides can differ. The shapes \<open>(2^63, 1)\<close> and
  \<open>(2^63 + 1, 1)\<close> meet in a float array and broadcast to the floats \<open>(2^63, 1)\<close>; with
  \<open>(1, 2^64)\<close> these meet in an array of objects and broadcast to \<open>(2^63, 2^64)\<close>, the
  only comparisons made with the floats being comparisons with 1. The three shapes
  together meet in an array of objects, where the integers \<open>2^63\<close> and \<open>2^63 + 1\<close>
  differ, and the call fails.
\<close>

theorem broadcast_shapes_assoc_counterexample:
  "broadcast_shapes_np exact_ne [[PyInt (2 ^ 63), PyInt 1], [PyInt (2 ^ 63 + 1), PyInt 1]]
     = Inr [PyFloat (2 ^ 63), PyFloat 1]
   \<and> broadcast_shapes_np exact_ne [[PyFloat (2 ^ 63), PyFloat 1], [PyInt 1, PyInt (2 ^ 64)]]
       = Inr [PyFloat (2 ^ 63), PyInt (2 ^ 64)]
   \<and> broadcast_shapes_np exact_ne
         [[PyInt (2 ^ 63), PyInt 1], [PyInt (2 ^ 63 + 1), PyInt 1], [PyInt 1, PyInt (2 ^ 64)]]
       = Inl shape_mismatch"
  by (intro conjI big0 big2 big3)

text \<open>
  Claim C10. With two arguments \<open>broadcast_shapes\<close> is commutative, for sizes of every
  magnitude: both orders succeed or both fail, and when they succeed they return the same
  numbers, of the same type.
\<close>

theorem broadcast_shapes_commute:
  "broadcast_shapes [a, b] = broadcast_shapes [b, a]
   \<and> broadcast_shapes_np ne [map PyInt a, map PyInt b]
       = broadcast_shapes_np ne [map PyInt b, map PyInt a]"
proof
  show eq: "broadcast_shapes [a, b] = broadcast_shapes [b, a]"
  proof (rule broadcast_shapes_cong)
    show m: "maxlen [a, b] = maxlen [b, a]" by (simp add: maxlen2 max.commute)
    fix i
    show "colres (padded_shapes [a, b]) i = colres (padded_shapes [b, a]) i"
      by (simp add: padded_shapes_conv int_kind_swap[of a b] colres2 m dim_merge_commute)
  qed simp_all
  have "broadcast_shapes_np ne (map (map PyInt) [a, b]) =
          broadcast_shapes_np ne (map (map PyInt) [b, a])"
    by (simp only: broadcast_shapes_np_values eq int_kind_swap[of a b] list.distinct
        not_False_eq_True)
  then show "broadcast_shapes_np ne [map PyInt a, map PyInt b]
       = broadcast_shapes_np ne [map PyInt b, map PyInt a]"
    by simp
qed

section \<open>Properties of get\_library\_for\<close>

lemma accepts_all_iff: "accepts_all E library objs = list_all (lib_accepts E library) objs"
  by (induction objs) auto

lemma find_library_result:
  "fst (find_library E objects rest) =
     find (\<lambda>l. list_all (lib_accepts E l) objects) (List.map_filter (pk_mathlib_library E) rest)"
  by (induction rest)
    (auto simp: List.map_filter_simps accepts_all_iff split: option.splits prod.splits)

lemma find_library_seen: "prefix (snd (find_library E objects rest)) rest"
  by (induction rest) (auto split: option.splits prod.splits)

lemma find_library_none:
  "fst (find_library E objects rest) = None \<Longrightarrow> snd (find_library E objects rest) = rest"
  by (induction rest) (auto split: option.splits prod.splits if_splits)

lemma sublist_join: "x \<in> set xs \<Longrightarrow> sublist x (join sep xs)"
proof (induction sep xs rule: join.induct)
  case (1 sep)
  then show ?case by simp
next
  case (2 sep y)
  then show ?case by simp
next
  case (3 sep y z zs)
  show ?case
  proof (cases "x = y")
    case True
    then show ?thesis by simp
  next
    case False
    then have "sublist x (join sep (z # zs))" using 3 by simp
    then have "sublist x ((y @ sep) @ join sep (z # zs))"
      by (metis sublist_append)
    then show ?thesis by simp
  qed
qed

text \<open>
  Claim C4. When every operand is an instance of \<open>numpy_types\<close>, \<open>get_library_for\<close>
  returns the numpy library and has read the attribute \<open>_pk_mathlib_library_\<close> of no
  operand; the result is the same whatever the operands hold in that attribute.
\<close>

theorem get_library_for_fast_path:
  assumes "list_all (isinstance_numpy_types E) objects"
  shows "get_library_for E objects = (Inr (numpy_library E), [])
       \<and> (\<forall>f. get_library_for (E\<lparr>pk_mathlib_library := f\<rparr>) objects = (Inr (numpy_library E), []))"
  using assms by (simp add: get_library_for_def)

theorem get_library_for_fast_path_witness:
  "list_all (isinstance_numpy_types test_resolver) [Array (float_array [3] 1), Array (float_array [] 2)]
   \<and> get_library_for test_resolver [Array (float_array [3] 1), Array (float_array [] 2)]
       = (Inr NumpyFunctionLibrary, [])"
proof -
  have h: "list_all (isinstance_numpy_types test_resolver)
             [Array (float_array [3] 1), Array (float_array [] 2)]"
    by (simp add: test_resolver_def)
  have n: "numpy_library test_resolver = NumpyFunctionLibrary"
    by (simp add: test_resolver_def)
  show ?thesis
    using get_library_for_fast_path[OF h] h n by simp
qed

text \<open>
  Claim C5. When some operand is not an instance of \<open>numpy_types\<close>, the attributes are
  read in the order of the arguments, and the result is the first library found there that
  accepts every operand of the call; an operand without a library, or with one that
  refuses some operand, is passed over. Only when no library is left does the call fail.
\<close>

theorem get_library_for_first_found:
  assumes "\<not> list_all (isinstance_numpy_types E) objects"
  shows "fst (get_library_for E objects) =
           (case find (\<lambda>l. list_all (lib_accepts E l) objects)
                   (List.map_filter (pk_mathlib_library E) objects) of
              Some library \<Rightarrow> Inr library
            | None \<Rightarrow> Inl (identification_error E objects))
       \<and> prefix (snd (get_library_for E objects)) objects"
proof -
  obtain r seen where f: "find_library E objects objects = (r, seen)"
    by (cases "find_library E objects objects")
  have r: "r = find (\<lambda>l. list_all (lib_accepts E l) objects)
                 (List.map_filter (pk_mathlib_library E) objects)"
    using find_library_result[of E objects objects] f by simp
  have s: "prefix seen objects"
    using find_library_seen[of E objects objects] f by simp
  show ?thesis
    using assms f r s by (simp add: get_library_for_def split: option.splits)
qed

theorem get_library_for_first_found_witness:
  "\<not> list_all (isinstance_numpy_types test_resolver)
       [Array (float_array [] 2), Wrapped (float_array [3] 1)]
   \<and> fst (get_library_for test_resolver [Array (float_array [] 2), Wrapped (float_array [3] 1)])
       = Inr (TidiedFunctionLibrary TestWrappedLibrary)"
proof -
  have h: "\<not> list_all (isinstance_numpy_types test_resolver)
               [Array (float_array [] 2), Wrapped (float_array [3] 1)]"
    by (simp add: test_resolver_def)
  have "find (\<lambda>l. list_all (lib_accepts test_resolver l)
                    [Array (float_array [] 2), Wrapped (float_array [3] 1)])
          (List.map_filter (pk_mathlib_library test_resolver)
             [Array (float_array [] 2), Wrapped (float_array [3] 1)])
        = Some (TidiedFunctionLibrary TestWrappedLibrary)"
    by (simp add: test_resolver_def List.map_filter_simps TestWrappedLibrary_def)
  then show ?thesis
    using get_library_for_first_found[OF h] h by simp
qed

text \<open>
  Claim C6. When some operand is not an instance of \<open>numpy_types\<close> and no library found
  in an attribute accepts every operand, \<open>get_library_for\<close> fails with a
  \<open>ValueError\<close> whose message lists, for every operand in order, its text and the name
  of its class; so each operand with its class occurs in the message.
\<close>

theorem get_library_for_failure:
  assumes "\<not> list_all (isinstance_numpy_types E) objects"
    and "\<forall>obj\<in>set objects. \<forall>library. pk_mathlib_library E obj = Some library \<longrightarrow>
           \<not> list_all (lib_accepts E library) objects"
  shows "fst (get_library_for E objects) =
           Inl (ValueError (''cannot identify math function library for input(s): '' @
             join '', '' (map (\<lambda>obj. str_of E obj @ '' ('' @ class_name E obj @ '')'') objects)))
       \<and> (\<forall>obj\<in>set objects.
            sublist (str_of E obj @ '' ('' @ class_name E obj @ '')'')
              (join '', '' (map (\<lambda>obj. str_of E obj @ '' ('' @ class_name E obj @ '')'') objects)))
       \<and> snd (get_library_for E objects) = objects"
proof -
  have "find (\<lambda>l. list_all (lib_accepts E l) objects)
          (List.map_filter (pk_mathlib_library E) objects) = None"
    using assms(2) by (auto simp: find_None_iff List.map_filter_def)
  then have none: "fst (find_library E objects objects) = None"
    by (simp add: find_library_result)
  then have seen: "snd (find_library E objects objects) = objects"
    by (rule find_library_none)
  have res: "get_library_for E objects = (Inl (identification_error E objects), objects)"
    using assms(1) none seen
    by (cases "find_library E objects objects") (simp add: get_library_for_def)
  have "\<And>obj. obj \<in> set objects \<Longrightarrow>
          sublist (str_of E obj @ '' ('' @ class_name E obj @ '')'')
            (join '', '' (map (\<lambda>obj. str_of E obj @ '' ('' @ class_name E obj @ '')'') objects))"
    by (rule sublist_join) simp
  then show ?thesis
    using res by (simp add: identification_error_def)
qed

theorem get_library_for_failure_witness:
  "\<not> list_all (isinstance_numpy_types test_resolver)
       [Wrapped (float_array [3] 1), Opaque ''dict'' ''{}'']
   \<and> fst (get_library_for test_resolver [Wrapped (float_array [3] 1), Opaque ''dict'' ''{}''])
       = Inl (ValueError
           ''cannot identify math function library for input(s): array [wrapped] (TestArrayWrapper), {} (dict)'')"
proof -
  have h1: "\<not> list_all (isinstance_numpy_types test_resolver)
               [Wrapped (float_array [3] 1), Opaque ''dict'' ''{}'']"
    by (simp add: test_resolver_def)
  have h2: "\<forall>obj\<in>set [Wrapped (float_array [3] 1), Opaque ''dict'' ''{}''].
              \<forall>library. pk_mathlib_library test_resolver obj = Some library \<longrightarrow>
                \<not> list_all (lib_accepts test_resolver library)
                    [Wrapped (float_array [3] 1), Opaque ''dict'' ''{}'']"
    by (simp add: test_resolver_def TestWrappedLibrary_def)
  have msg: "join '', ''
               (map (\<lambda>obj. str_of test_resolver obj @ '' ('' @ class_name test_resolver obj @ '')'')
                  [Wrapped (float_array [3] 1), Opaque ''dict'' ''{}''])
             = ''array [wrapped] (TestArrayWrapper), {} (dict)''"
    by (simp add: test_resolver_def float_array_def)
  show ?thesis
    using get_library_for_failure[OF h1 h2] h1 unfolding msg by simp
qed

section \<open>Properties of the tidying adapter\<close>

lemmas comp_defs = bindS_def liftE_def returnS_def raiseS_def

lemma tidy_std_unary_error:
  "tidy_std_unary_prepare self opname x0 out0 st = (Inl e, st') \<Longrightarrow>
   tidy_std_unary self opname x0 out0 st = (Inl e, st')"
  by (simp add: tidy_std_unary_def bindS_def)

lemma tidy_std_binary_error:
  "tidy_std_binary_prepare rt self opname x0 y0 out0 st = (Inl e, st') \<Longrightarrow>
   tidy_std_binary rt self opname x0 y0 out0 st = (Inl e, st')"
  by (simp add: tidy_std_binary_def bindS_def)

lemma broadcast_shapes_error:
  "shapes \<noteq> [] \<Longrightarrow> broadcast_shapes shapes = Inl e \<Longrightarrow> e = shape_mismatch"
  using broadcast_shapes_columns(2) by blast

lemma unary_out_shape_error:
  assumes "typeconvert self x0 = Inr x" "typeconvert self out0 = Inr out"
    and "broadcast_shapes [shape self x, shape self out] \<noteq> Inr (shape self out)"
  shows "\<exists>e. tidy_std_unary_prepare self opname x0 (Some out0) st = (Inl e, st)
            \<and> (e = shape_mismatch
               \<or> e = ValueError ''output parameter must have final broadcasted shape'')"
proof (cases "broadcast_shapes [shape self x, shape self out]")
  case (Inl e)
  then have "e = shape_mismatch" by (intro broadcast_shapes_error[OF _ Inl]) simp
  then show ?thesis
    using assms(1,2) Inl by (simp add: tidy_std_unary_prepare_def comp_defs)
next
  case (Inr bsh)
  then have "shape self out \<noteq> bsh" using assms(3) by auto
  then show ?thesis
    using assms(1,2) Inr by (simp add: tidy_std_unary_prepare_def comp_defs)
qed

lemma binary_out_shape_error:
  assumes "typeconvert self x0 = Inr x" "typeconvert self y0 = Inr y"
    and "typeconvert self out0 = Inr out"
    and "broadcast_shapes [shape self x, shape self y, shape self out] \<noteq> Inr (shape self out)"
  shows "\<exists>e. tidy_std_binary_prepare rt self opname x0 y0 (Some out0) st = (Inl e, st)
            \<and> (e = shape_mismatch
               \<or> e = ValueError ''output parameter must have final broadcasted shape'')"
proof (cases "broadcast_shapes [shape self x, shape self y, shape self out]")
  case (Inl e)
  then have "e = shape_mismatch" by (intro broadcast_shapes_error[OF _ Inl]) simp
  then show ?thesis
    using assms(1,2,3) Inl by (simp add: tidy_std_binary_prepare_def comp_defs)
next
  case (Inr bsh)
  then have "shape self out \<noteq> bsh" using assms(4) by auto
  then show ?thesis
    using assms(1,2,3) Inr by (simp add: tidy_std_binary_prepare_def comp_defs)
qed

lemma unary_prepare_no_out:
  assumes "tidy_std_unary_prepare self opname x0 None st = (Inr (x, out, retval), st')"
  shows "\<exists>fs xc. common_interface_functions opname = Some fs \<and> typeconvert self x0 = Inr xc
           \<and> new_empty self (shape self xc)
                (if fs_flags fs AND bool_result \<noteq> 0 then np_bool else get_dtype self x) st
              = (Inr out, st')
           \<and> (\<exists>r. retval = Fresh r)"
  using assms unfolding tidy_std_unary_prepare_def flags_of_def
  by (auto simp: comp_defs Let_def split: sum.splits option.splits if_splits prod.splits)

lemma binary_prepare_no_out:
  assumes "tidy_std_binary_prepare rt self opname x0 y0 None st = (Inr (x, y, out, retval), st')"
  shows "\<exists>fs xc yc bsh. common_interface_functions opname = Some fs
           \<and> typeconvert self x0 = Inr xc \<and> typeconvert self y0 = Inr yc
           \<and> broadcast_shapes [shape self xc, shape self yc] = Inr bsh
           \<and> new_empty self bsh
                (if fs_flags fs AND bool_result \<noteq> 0 then np_bool
                 else rt (get_dtype self x) (get_dtype self y)) st
              = (Inr out, st')
           \<and> (\<exists>r. retval = Fresh r)"
  using assms unfolding tidy_std_binary_prepare_def flags_of_def
  by (auto simp: comp_defs Let_def split: sum.splits option.splits if_splits prod.splits)

subsection \<open>Evaluating the test classes\<close>

lemma lookup_negative:
  "common_interface_functions ''negative'' = Some (FS ''negative'' std_unary has_numpy_impl)"
  by (simp add: common_interface_functions_def interface_list_def FS_def)

lemma lookup_isfinite:
  "common_interface_functions ''isfinite'' =
     Some (FS ''isfinite'' std_unary (has_numpy_impl OR bool_result))"
  by (simp add: common_interface_functions_def interface_list_def FS_def)

lemma lookup_add:
  "common_interface_functions ''add'' = Some (FS ''add'' std_binary has_numpy_impl)"
  by (simp add: common_interface_functions_def interface_list_def FS_def)

lemma lookup_mod: "common_interface_functions ''mod'' = None"
  by (simp add: common_interface_functions_def interface_list_def FS_def)

lemma flag_tests:
  "(has_numpy_impl AND bool_result \<noteq> 0) = False"
  "((has_numpy_impl OR bool_result) AND bool_result \<noteq> 0) = True"
  "(0 < has_numpy_impl AND bool_result) = False"
  "(0 < (has_numpy_impl OR bool_result) AND bool_result) = True"
  by (simp_all add: has_numpy_impl_def bool_result_def)

lemma test_library_simps:
  "typeconvert TestWrappedLibrary (Wrapped a) = Inr a"
  "typeconvert TestWrappedLibrary (Array a) = try_asarray (Array a)"
  "shape TestWrappedLibrary = nd_shape"
  "get_dtype TestWrappedLibrary = nd_dtype"
  "new_empty TestWrappedLibrary sh dt w =
     (Inr \<lparr>nd_shape = sh, nd_dtype = dt, nd_buf = next_buf w, nd_repr = []\<rparr>,
      w\<lparr>next_buf := Suc (next_buf w)\<rparr>)"
  "broadcast_to TestWrappedLibrary a sh =
     (if broadcast_shapes [nd_shape a, sh] = Inr sh then Inr (a\<lparr>nd_shape := sh\<rparr>)
      else Inl (ValueError ''operands could not be broadcast together''))"
  "tidy TestWrappedLibrary ''tidy_negative'' [a, b] = tidy_write ''TN'' [a] b"
  "tidy TestWrappedLibrary ''tidy_add'' [a, b, c] = tidy_write ''TA'' [a, b] c"
  by (simp_all add: TestWrappedLibrary_def)

lemma reshaping_library_simps:
  "typeconvert ReshapingTestLibrary = typeconvert TestWrappedLibrary"
  "shape ReshapingTestLibrary = nd_shape"
  "get_dtype ReshapingTestLibrary = nd_dtype"
  "new_empty ReshapingTestLibrary = new_empty TestWrappedLibrary"
  "tidy ReshapingTestLibrary = tidy TestWrappedLibrary"
  "reshape ReshapingTestLibrary a sh =
     (if prod_list sh = prod_list (nd_shape a) then Inr (a\<lparr>nd_shape := sh\<rparr>)
      else Inl (ValueError ''cannot reshape array''))"
  by (simp_all add: ReshapingTestLibrary_def TestWrappedLibrary_def)

lemma try_asarray_float: "try_asarray (Array (float_array sh b)) = Inr (float_array sh b)"
  by (simp add: try_asarray_def float_array_def)

lemma float_array_simps:
  "nd_shape (float_array sh b) = sh"
  "nd_dtype (float_array sh b) = np_float"
  "nd_buf (float_array sh b) = b"
  by (simp_all add: float_array_def)

subsection \<open>A supplied output of the wrong shape\<close>

text \<open>
  Claim C3. When an output is supplied and its shape is not the shape to which the inputs
  and the output broadcast together (or they do not broadcast at all), the unary and the
  binary adapter fail before the tidy implementation is called: already the part of the
  adapter that precedes the call fails, and the state is returned as it was, so nothing has
  been allocated and nothing written, whatever the provider's tidy implementation does.
\<close>

theorem output_shape_checked_before_tidy:
  assumes "typeconvert self x0 = Inr x" and "typeconvert self out0 = Inr out"
  shows "(broadcast_shapes [shape self x, shape self out] \<noteq> Inr (shape self out) \<longrightarrow>
            (\<exists>e. tidy_std_unary_prepare self opname x0 (Some out0) st = (Inl e, st)
                \<and> tidy_std_unary self opname x0 (Some out0) st = (Inl e, st)
                \<and> (e = shape_mismatch
                   \<or> e = ValueError ''output parameter must have final broadcasted shape'')))
       \<and> (\<forall>y0 y. typeconvert self y0 = Inr y
              \<and> broadcast_shapes [shape self x, shape self y, shape self out] \<noteq> Inr (shape self out) \<longrightarrow>
            (\<exists>e. tidy_std_binary_prepare rt self opname x0 y0 (Some out0) st = (Inl e, st)
                \<and> tidy_std_binary rt self opname x0 y0 (Some out0) st = (Inl e, st)
                \<and> (e = shape_mismatch
                   \<or> e = ValueError ''output parameter must have final broadcasted shape'')))"
proof (intro conjI impI allI)
  assume "broadcast_shapes [shape self x, shape self out] \<noteq> Inr (shape self out)"
  from unary_out_shape_error[OF assms this, of opname st]
  obtain e where p: "tidy_std_unary_prepare self opname x0 (Some out0) st = (Inl e, st)"
    and k: "e = shape_mismatch
            \<or> e = ValueError ''output parameter must have final broadcasted shape''"
    by (elim exE conjE)
  have t: "tidy_std_unary self opname x0 (Some out0) st = (Inl e, st)"
    by (rule tidy_std_unary_error[OF p])
  show "\<exists>e. tidy_std_unary_prepare self opname x0 (Some out0) st = (Inl e, st)
           \<and> tidy_std_unary self opname x0 (Some out0) st = (Inl e, st)
           \<and> (e = shape_mismatch
              \<or> e = ValueError ''output parameter must have final broadcasted shape'')"
    by (rule exI[of _ e]) (intro conjI p t k)
next
  fix y0 y
  assume "typeconvert self y0 = Inr y
      \<and> broadcast_shapes [shape self x, shape self y, shape self out] \<noteq> Inr (shape self out)"
  then have y: "typeconvert self y0 = Inr y"
    and b: "broadcast_shapes [shape self x, shape self y, shape self out] \<noteq> Inr (shape self out)"
    by simp_all
  from binary_out_shape_error[OF assms(1) y assms(2) b, of rt opname st]
  obtain e where p: "tidy_std_binary_prepare rt self opname x0 y0 (Some out0) st = (Inl e, st)"
    and k: "e = shape_mismatch
            \<or> e = ValueError ''output parameter must have final broadcasted shape''"
    by (elim exE conjE)
  have t: "tidy_std_binary rt self opname x0 y0 (Some out0) st = (Inl e, st)"
    by (rule tidy_std_binary_error[OF p])
  show "\<exists>e. tidy_std_binary_prepare rt self opname x0 y0 (Some out0) st = (Inl e, st)
           \<and> tidy_std_binary rt self opname x0 y0 (Some out0) st = (Inl e, st)
           \<and> (e = shape_mismatch
              \<or> e = ValueError ''output parameter must have final broadcasted shape'')"
    by (rule exI[of _ e]) (intro conjI p t k)
qed

theorem output_shape_checked_before_tidy_witness:
  "typeconvert TestWrappedLibrary (Wrapped (float_array [2, 3] 1)) = Inr (float_array [2, 3] 1)
   \<and> typeconvert TestWrappedLibrary (Wrapped (float_array [3] 2)) = Inr (float_array [3] 2)
   \<and> typeconvert TestWrappedLibrary (Array (float_array [] 3)) = Inr (float_array [] 3)
   \<and> broadcast_shapes [[2, 3], [3]] \<noteq> Inr [3]
   \<and> broadcast_shapes [[2, 3], [], [3]] \<noteq> Inr [3]
   \<and> (\<exists>e. tidy_std_unary TestWrappedLibrary ''negative'' (Wrapped (float_array [2, 3] 1))
             (Some (Wrapped (float_array [3] 2))) world0 = (Inl e, world0))
   \<and> (\<exists>e. tidy_std_binary kind_promote TestWrappedLibrary ''add'' (Wrapped (float_array [2, 3] 1))
             (Array (float_array [] 3)) (Some (Wrapped (float_array [3] 2))) world0 = (Inl e, world0))"
proof -
  have cx: "typeconvert TestWrappedLibrary (Wrapped (float_array [2, 3] 1)) = Inr (float_array [2, 3] 1)"
    by (simp add: test_library_simps)
  have co: "typeconvert TestWrappedLibrary (Wrapped (float_array [3] 2)) = Inr (float_array [3] 2)"
    by (simp add: test_library_simps)
  have cy: "typeconvert TestWrappedLibrary (Array (float_array [] 3)) = Inr (float_array [] 3)"
    by (simp add: test_library_simps try_asarray_float)
  have b2: "broadcast_shapes [[2, 3], [3]] \<noteq> Inr [3]"
    by (simp add: bc_23_3)
  have b3: "broadcast_shapes [[2, 3], [], [3]] \<noteq> Inr [3]"
    by (simp add: bc_23_0_3)
  have sh: "shape TestWrappedLibrary (float_array s k) = s" for s k
    by (simp add: test_library_simps float_array_simps)
  have "broadcast_shapes [[2, 3], [3]] \<noteq> Inr [3] \<longrightarrow>
          (\<exists>e. tidy_std_unary_prepare TestWrappedLibrary ''negative'' (Wrapped (float_array [2, 3] 1))
                  (Some (Wrapped (float_array [3] 2))) world0 = (Inl e, world0)
              \<and> tidy_std_unary TestWrappedLibrary ''negative'' (Wrapped (float_array [2, 3] 1))
                  (Some (Wrapped (float_array [3] 2))) world0 = (Inl e, world0)
              \<and> (e = shape_mismatch
                 \<or> e = ValueError ''output parameter must have final broadcasted shape''))"
    using output_shape_checked_before_tidy[OF cx co,
        where opname = "''negative''" and st = world0, THEN conjunct1]
    unfolding sh .
  with b2 have u: "\<exists>e. tidy_std_unary TestWrappedLibrary ''negative'' (Wrapped (float_array [2, 3] 1))
             (Some (Wrapped (float_array [3] 2))) world0 = (Inl e, world0)"
    by blast
  have "typeconvert TestWrappedLibrary (Array (float_array [] 3)) = Inr (float_array [] 3)
          \<and> broadcast_shapes [[2, 3], [], [3]] \<noteq> Inr [3] \<longrightarrow>
          (\<exists>e. tidy_std_binary_prepare kind_promote TestWrappedLibrary ''add''
                  (Wrapped (float_array [2, 3] 1)) (Array (float_array [] 3))
                  (Some (Wrapped (float_array [3] 2))) world0 = (Inl e, world0)
              \<and> tidy_std_binary kind_promote TestWrappedLibrary ''add''
                  (Wrapped (float_array [2, 3] 1)) (Array (float_array [] 3))
                  (Some (Wrapped (float_array [3] 2))) world0 = (Inl e, world0)
              \<and> (e = shape_mismatch
                 \<or> e = ValueError ''output parameter must have final broadcasted shape''))"
    using output_shape_checked_before_tidy[OF cx co,
        where opname = "''add''" and st = world0 and rt = kind_promote,
        THEN conjunct2, THEN spec, THEN spec,
        of "Array (float_array [] 3)" "float_array [] 3"]
    unfolding sh .
  with b3 cy have b: "\<exists>e. tidy_std_binary kind_promote TestWrappedLibrary ''add''
             (Wrapped (float_array [2, 3] 1)) (Array (float_array [] 3))
             (Some (Wrapped (float_array [3] 2))) world0 = (Inl e, world0)"
    by blast
  show ?thesis using cx co cy b2 b3 u b by blast
qed

subsection \<open>The element type of an allocated output\<close>

text \<open>
  Claim C7. When no output is supplied and the adapter gets as far as the call of the tidy
  implementation, the output handed to it is a container that the adapter has allocated
  with \<open>new_empty\<close>, and the element type asked for is boolean when the operation carries
  the flag \<open>bool_result\<close>; otherwise it is the element type of the input (unary) or the
  result type of the element types of the two inputs (binary), the inputs being read as
  the tidy implementation receives them, that is after conversion and reshaping or
  broadcasting. The value returned is made from the allocated container.
\<close>

theorem allocated_output_dtype:
  "(tidy_std_unary_prepare self opname x0 None st = (Inr (x, out, retval), st') \<longrightarrow>
      (\<exists>fs xc. common_interface_functions opname = Some fs \<and> typeconvert self x0 = Inr xc
         \<and> new_empty self (shape self xc)
              (if fs_flags fs AND bool_result \<noteq> 0 then np_bool else get_dtype self x) st
            = (Inr out, st')
         \<and> (\<exists>r. retval = Fresh r)))
   \<and> (tidy_std_binary_prepare rt self opname x1 y1 None st = (Inr (x2, y2, out2, retval2), st2) \<longrightarrow>
      (\<exists>fs xc yc bsh. common_interface_functions opname = Some fs
         \<and> typeconvert self x1 = Inr xc \<and> typeconvert self y1 = Inr yc
         \<and> broadcast_shapes [shape self xc, shape self yc] = Inr bsh
         \<and> new_empty self bsh
              (if fs_flags fs AND bool_result \<noteq> 0 then np_bool
               else rt (get_dtype self x2) (get_dtype self y2)) st
            = (Inr out2, st2)
         \<and> (\<exists>r. retval2 = Fresh r)))"
proof (intro conjI impI)
  assume "tidy_std_unary_prepare self opname x0 None st = (Inr (x, out, retval), st')"
  then show "\<exists>fs xc. common_interface_functions opname = Some fs \<and> typeconvert self x0 = Inr xc
         \<and> new_empty self (shape self xc)
              (if fs_flags fs AND bool_result \<noteq> 0 then np_bool else get_dtype self x) st
            = (Inr out, st')
         \<and> (\<exists>r. retval = Fresh r)"
    by (rule unary_prepare_no_out)
next
  assume "tidy_std_binary_prepare rt self opname x1 y1 None st = (Inr (x2, y2, out2, retval2), st2)"
  then show "\<exists>fs xc yc bsh. common_interface_functions opname = Some fs
         \<and> typeconvert self x1 = Inr xc \<and> typeconvert self y1 = Inr yc
         \<and> broadcast_shapes [shape self xc, shape self yc] = Inr bsh
         \<and> new_empty self bsh
              (if fs_flags fs AND bool_result \<noteq> 0 then np_bool
               else rt (get_dtype self x2) (get_dtype self y2)) st
            = (Inr out2, st2)
         \<and> (\<exists>r. retval2 = Fresh r)"
    by (rule binary_prepare_no_out)
qed

lemma prepare_isfinite_example:
  "tidy_std_unary_prepare TestWrappedLibrary ''isfinite'' (Wrapped (float_array [3] 1)) None world0 =
     (Inr (float_array [3] 1,
           \<lparr>nd_shape = [3], nd_dtype = np_bool, nd_buf = 10, nd_repr = []\<rparr>,
           Fresh \<lparr>nd_shape = [3], nd_dtype = np_bool, nd_buf = 10, nd_repr = []\<rparr>),
      world0\<lparr>next_buf := 11\<rparr>)"
  by (simp add: tidy_std_unary_prepare_def comp_defs flags_of_def lookup_isfinite FS_def
      flag_tests test_library_simps float_array_simps world0_def Let_def)

lemma prepare_add_example:
  "tidy_std_binary_prepare kind_promote TestWrappedLibrary ''add''
       (Wrapped (float_array [3] 1)) (Array (float_array [3] 2)) None world0 =
     (Inr (float_array [3] 1, float_array [3] 2,
           \<lparr>nd_shape = [3], nd_dtype = np_float, nd_buf = 10, nd_repr = []\<rparr>,
           Fresh \<lparr>nd_shape = [3], nd_dtype = np_float, nd_buf = 10, nd_repr = []\<rparr>),
      world0\<lparr>next_buf := 11\<rparr>)"
  by (simp add: tidy_std_binary_prepare_def comp_defs flags_of_def lookup_add FS_def
      flag_tests test_library_simps try_asarray_float float_array_simps bc_3_3 world0_def Let_def
      kind_promote_def kind_rank_def)

theorem allocated_output_dtype_witness:
  "tidy_std_unary_prepare TestWrappedLibrary ''isfinite'' (Wrapped (float_array [3] 1)) None world0 =
     (Inr (float_array [3] 1,
           \<lparr>nd_shape = [3], nd_dtype = np_bool, nd_buf = 10, nd_repr = []\<rparr>,
           Fresh \<lparr>nd_shape = [3], nd_dtype = np_bool, nd_buf = 10, nd_repr = []\<rparr>),
      world0\<lparr>next_buf := 11\<rparr>)
   \<and> new_empty TestWrappedLibrary [3] np_bool world0 =
       (Inr \<lparr>nd_shape = [3], nd_dtype = np_bool, nd_buf = 10, nd_repr = []\<rparr>, world0\<lparr>next_buf := 11\<rparr>)
   \<and> tidy_std_binary_prepare kind_promote TestWrappedLibrary ''add''
       (Wrapped (float_array [3] 1)) (Array (float_array [3] 2)) None world0 =
     (Inr (float_array [3] 1, float_array [3] 2,
           \<lparr>nd_shape = [3], nd_dtype = np_float, nd_buf = 10, nd_repr = []\<rparr>,
           Fresh \<lparr>nd_shape = [3], nd_dtype = np_float, nd_buf = 10, nd_repr = []\<rparr>),
      world0\<lparr>next_buf := 11\<rparr>)
   \<and> new_empty TestWrappedLibrary [3] (kind_promote np_float np_float) world0 =
       (Inr \<lparr>nd_shape = [3], nd_dtype = np_float, nd_buf = 10, nd_repr = []\<rparr>, world0\<lparr>next_buf := 11\<rparr>)"
proof -
  note u = allocated_output_dtype[THEN conjunct1, THEN mp, OF prepare_isfinite_example]
  then obtain fs xc where
    "common_interface_functions ''isfinite'' = Some fs"
    "typeconvert TestWrappedLibrary (Wrapped (float_array [3] 1)) = Inr xc"
    "new_empty TestWrappedLibrary (shape TestWrappedLibrary xc)
       (if fs_flags fs AND bool_result \<noteq> 0 then np_bool
        else get_dtype TestWrappedLibrary (float_array [3] 1)) world0
     = (Inr \<lparr>nd_shape = [3], nd_dtype = np_bool, nd_buf = 10, nd_repr = []\<rparr>,
        world0\<lparr>next_buf := 11\<rparr>)"
    by (elim exE conjE)
  then have a: "new_empty TestWrappedLibrary [3] np_bool world0 =
       (Inr \<lparr>nd_shape = [3], nd_dtype = np_bool, nd_buf = 10, nd_repr = []\<rparr>, world0\<lparr>next_buf := 11\<rparr>)"
    by (auto simp: lookup_isfinite FS_def flag_tests test_library_simps(1,3) float_array_simps)
  note b = allocated_output_dtype[THEN conjunct2, THEN mp, OF prepare_add_example]
  then obtain fs xc yc bsh where
    "common_interface_functions ''add'' = Some fs"
    "typeconvert TestWrappedLibrary (Wrapped (float_array [3] 1)) = Inr xc"
    "typeconvert TestWrappedLibrary (Array (float_array [3] 2)) = Inr yc"
    "broadcast_shapes [shape TestWrappedLibrary xc, shape TestWrappedLibrary yc] = Inr bsh"
    "new_empty TestWrappedLibrary bsh
       (if fs_flags fs AND bool_result \<noteq> 0 then np_bool
        else kind_promote (get_dtype TestWrappedLibrary (float_array [3] 1))
               (get_dtype TestWrappedLibrary (float_array [3] 2))) world0
     = (Inr \<lparr>nd_shape = [3], nd_dtype = np_float, nd_buf = 10, nd_repr = []\<rparr>,
        world0\<lparr>next_buf := 11\<rparr>)"
    by (elim exE conjE)
  then have c: "new_empty TestWrappedLibrary [3] (kind_promote np_float np_float) world0 =
       (Inr \<lparr>nd_shape = [3], nd_dtype = np_float, nd_buf = 10, nd_repr = []\<rparr>, world0\<lparr>next_buf := 11\<rparr>)"
    by (auto simp: lookup_add FS_def flag_tests test_library_simps(1,2,3,4) try_asarray_float
        float_array_simps bc_3_3)
  show ?thesis
    by (intro conjI prepare_isfinite_example a prepare_add_example c)
qed

subsection \<open>Zero-dimensional operands\<close>

text \<open>
  When no output is supplied and the operand is zero-dimensional, the adapter reshapes the
  operand to \<open>(1,)\<close> but asks \<open>new_empty\<close> for a container of the shape \<open>()\<close>, and it
  is this container that goes to the tidy implementation; only the returned value is
  passed through \<open>reshape\<close>. This holds for every provider.
\<close>

lemma zero_dim_unary_output_requested:
  assumes "tidy_std_unary_prepare self opname x0 None st = (Inr (x, out, retval), st')"
    and "typeconvert self x0 = Inr xc" and "shape self xc = []"
  shows "\<exists>dt. new_empty self [] dt st = (Inr out, st')"
  using unary_prepare_no_out[OF assms(1)] assms(2,3) by auto

lemma zero_dim_binary_output_requested:
  assumes "tidy_std_binary_prepare rt self opname x0 y0 None st = (Inr (x, y, out, retval), st')"
    and "typeconvert self x0 = Inr xc" and "typeconvert self y0 = Inr yc"
    and "broadcast_shapes [shape self xc, shape self yc] = Inr []"
  shows "\<exists>dt. new_empty self [] dt st = (Inr out, st')"
  using binary_prepare_no_out[OF assms(1)] assms(2,3,4) by auto

text \<open>
  Claim C2 says that a tidy implementation never receives zero-dimensional data and that
  a zero-dimensional operand gives a zero-dimensional result. On the path without an
  output the code does otherwise. With a provider that implements \<open>reshape\<close>, the call
  \<open>negative (x)\<close> for a zero-dimensional \<open>x\<close> hands to \<open>tidy_negative\<close> the operand with
  the shape \<open>(1,)\<close> and an output with the shape \<open>()\<close>, and the assignment to
  \<open>out.data[:]\<close> in \<open>tidy_negative\<close> then fails; the binary adapter does the same. With
  \<open>TestWrappedLibrary\<close> itself the call fails earlier, since that class has no method
  \<open>reshape\<close>.
\<close>

theorem zero_dim_output_reaches_tidy:
  "tidy_std_unary_prepare ReshapingTestLibrary ''negative'' (Wrapped (float_array [] 1)) None world0 =
     (Inr (\<lparr>nd_shape = [1], nd_dtype = np_float, nd_buf = 1, nd_repr = ''array''\<rparr>,
           \<lparr>nd_shape = [], nd_dtype = np_float, nd_buf = 10, nd_repr = []\<rparr>,
           Fresh \<lparr>nd_shape = [], nd_dtype = np_float, nd_buf = 10, nd_repr = []\<rparr>),
      world0\<lparr>next_buf := 11\<rparr>)
   \<and> fst (tidy_std_unary ReshapingTestLibrary ''negative'' (Wrapped (float_array [] 1)) None world0)
       = Inl (IndexError ''too many indices for array'')
   \<and> tidy_std_binary_prepare kind_promote ReshapingTestLibrary ''add''
       (Wrapped (float_array [] 1)) (Array (float_array [] 2)) None world0 =
     (Inr (\<lparr>nd_shape = [1], nd_dtype = np_float, nd_buf = 1, nd_repr = ''array''\<rparr>,
           \<lparr>nd_shape = [1], nd_dtype = np_float, nd_buf = 2, nd_repr = ''array''\<rparr>,
           \<lparr>nd_shape = [], nd_dtype = np_float, nd_buf = 10, nd_repr = []\<rparr>,
           Fresh \<lparr>nd_shape = [], nd_dtype = np_float, nd_buf = 10, nd_repr = []\<rparr>),
      world0\<lparr>next_buf := 11\<rparr>)
   \<and> (\<exists>msg. tidy_std_unary TestWrappedLibrary ''negative'' (Wrapped (float_array [] 1)) None world0
       = (Inl (NotImplementedError msg), world0))"
proof (intro conjI)
  show p: "tidy_std_unary_prepare ReshapingTestLibrary ''negative'' (Wrapped (float_array [] 1)) None world0 =
     (Inr (\<lparr>nd_shape = [1], nd_dtype = np_float, nd_buf = 1, nd_repr = ''array''\<rparr>,
           \<lparr>nd_shape = [], nd_dtype = np_float, nd_buf = 10, nd_repr = []\<rparr>,
           Fresh \<lparr>nd_shape = [], nd_dtype = np_float, nd_buf = 10, nd_repr = []\<rparr>),
      world0\<lparr>next_buf := 11\<rparr>)"
    by (simp add: tidy_std_unary_prepare_def comp_defs flags_of_def lookup_negative FS_def
        flag_tests reshaping_library_simps test_library_simps float_array_def world0_def Let_def)
  show "fst (tidy_std_unary ReshapingTestLibrary ''negative'' (Wrapped (float_array [] 1)) None world0)
       = Inl (IndexError ''too many indices for array'')"
    unfolding tidy_std_unary_def bindS_def p
    by (simp add: reshaping_library_simps test_library_simps tidy_write_def Let_def)
  show "tidy_std_binary_prepare kind_promote ReshapingTestLibrary ''add''
       (Wrapped (float_array [] 1)) (Array (float_array [] 2)) None world0 =
     (Inr (\<lparr>nd_shape = [1], nd_dtype = np_float, nd_buf = 1, nd_repr = ''array''\<rparr>,
           \<lparr>nd_shape = [1], nd_dtype = np_float, nd_buf = 2, nd_repr = ''array''\<rparr>,
           \<lparr>nd_shape = [], nd_dtype = np_float, nd_buf = 10, nd_repr = []\<rparr>,
           Fresh \<lparr>nd_shape = [], nd_dtype = np_float, nd_buf = 10, nd_repr = []\<rparr>),
      world0\<lparr>next_buf := 11\<rparr>)"
    by (simp add: tidy_std_binary_prepare_def comp_defs flags_of_def lookup_add FS_def
        flag_tests reshaping_library_simps test_library_simps try_asarray_def float_array_def
        bc_0_0 world0_def Let_def kind_promote_def kind_rank_def)
  show "\<exists>msg. tidy_std_unary TestWrappedLibrary ''negative'' (Wrapped (float_array [] 1)) None world0
       = (Inl (NotImplementedError msg), world0)"
    by (simp add: tidy_std_unary_def tidy_std_unary_prepare_def comp_defs
        TestWrappedLibrary_def float_array_def Let_def)
qed

subsection \<open>In-place operators\<close>

lemma tidy_std_binary_returns_out:
  assumes "tidy_std_binary rt self opname x0 y0 (Some out0) st = (Inr r, st')"
  shows "r = Given out0"
  using assms unfolding tidy_std_binary_def tidy_std_binary_prepare_def
  by (auto simp: comp_defs Let_def split: sum.splits if_splits prod.splits)

lemma inplace_names_registered:
  "opr \<noteq> imod \<Longrightarrow>
   \<exists>fs. common_interface_functions (inplace_name opr) = Some fs \<and> fs_signature fs = std_binary"
  by (cases opr) (simp_all add: common_interface_functions_def interface_list_def FS_def)

text \<open>
  For the other twelve operators and a tidied library the dispatch is the call of
  \<open>_tidy_std_binary\<close> with the left operand as output, and a call that succeeds returns
  the left operand itself.
\<close>

lemma inplace_on_tidied:
  assumes "opr \<noteq> imod"
    and "fst (get_library_for E [self, other]) = Inr (TidiedFunctionLibrary L)"
  shows "inplace E np rt opr self other =
           tidy_std_binary rt L (inplace_name opr) self other (Some self)"
proof -
  from inplace_names_registered[OF assms(1)] obtain fs where
    "common_interface_functions (inplace_name opr) = Some fs" "fs_signature fs = std_binary"
    by (elim exE conjE)
  then show ?thesis
    using assms(2)
    by (simp add: inplace_def dispatch_binary_inplace_def library_call3_def comp_defs)
qed

lemma inplace_returns_left_operand:
  assumes "opr \<noteq> imod"
    and "fst (get_library_for E [self, other]) = Inr (TidiedFunctionLibrary L)"
    and "inplace E np rt opr self other st = (Inr r, st')"
  shows "r = Given self"
  using assms(3) unfolding inplace_on_tidied[OF assms(1,2)]
  by (rule tidy_std_binary_returns_out)

lemma test_resolver_wrapped_array:
  "fst (get_library_for test_resolver [Wrapped a, Array b]) = Inr (TidiedFunctionLibrary TestWrappedLibrary)"
  by (simp add: get_library_for_def test_resolver_def TestWrappedLibrary_def)

lemma inplace_add_example:
  "inplace test_resolver numpy_unused kind_promote iadd
       (Wrapped (float_array [3] 1)) (Array (float_array [] 2)) world0 =
     (Inr (Given (Wrapped (float_array [3] 1))),
      world0\<lparr>printed := [(''TA'', [([3], np_float), ([3], np_float), ([3], np_float)])],
             writes := [(1, ''TA'', [1, 2])]\<rparr>)"
  unfolding inplace_on_tidied[of iadd, OF _ test_resolver_wrapped_array, simplified]
  by (simp add: tidy_std_binary_def tidy_std_binary_prepare_def comp_defs test_library_simps
      try_asarray_float float_array_simps bc_3_0_3 bc_0_3 bc_3_3_3 tidy_write_def world0_def Let_def)

text \<open>
  Claim C8 says that every in-place operator hands the left operand to the named
  operation as its output and returns that operand. \<open>__imod__\<close> is bound to the name
  \<open>mod\<close>, which is no key of the registry (the operation is registered as \<open>remainder\<close>,
  and \<open>mod\<close> is only an alias at module level), so no library has a method of that name:
  the operator fails with an \<open>AttributeError\<close> for every pair of operands, and the left
  operand is neither written nor returned.
\<close>

theorem inplace_mod_raises:
  "(\<exists>e. inplace E np rt imod self other st = (Inl e, st))
   \<and> inplace test_resolver numpy_unused kind_promote imod
         (Wrapped (float_array [3] 1)) (Array (float_array [] 2)) world0
       = (Inl (AttributeError ''library object has no attribute mod''), world0)"
proof
  show "\<exists>e. inplace E np rt imod self other st = (Inl e, st)"
    by (cases "fst (get_library_for E [self, other])")
      (simp_all add: inplace_def dispatch_binary_inplace_def library_call3_def lookup_mod comp_defs)
  show "inplace test_resolver numpy_unused kind_promote imod
         (Wrapped (float_array [3] 1)) (Array (float_array [] 2)) world0
       = (Inl (AttributeError ''library object has no attribute mod''), world0)"
    by (simp add: inplace_def dispatch_binary_inplace_def library_call3_def lookup_mod comp_defs
        test_resolver_wrapped_array)
qed

end
